theory Spec2Isabelle
  imports Complex_Main
begin

section \<open>Numbers\<close>

text \<open>
  A JavaScript number that is finite is a rational number, and every arithmetic operation
  of the language returns the exact result rounded to the nearest representable number.
  The embedding keeps the values exact (\<^typ>\<open>rat\<close>) and writes the rounding out: each
  operation takes the rounding function \<open>rd\<close> of the number format and applies it to its
  exact result. With \<open>rd = id\<close> the arithmetic is exact decimal arithmetic; with the
  rounding \<open>double\<close> of IEEE-754 doubles it is the arithmetic of the source. Comparisons and
  \<open>Math.max\<close> are exact in both. The integer literals and \<open>1.5\<close> are doubles; the
  literals \<open>1.2\<close>, \<open>1.15\<close> and \<open>1.3\<close> are not, and denote their rounded values.
  NaN and the infinities are outside the model.
\<close>

type_synonym rounding = "rat \<Rightarrow> rat"

definition js_mul :: "rounding \<Rightarrow> rat \<Rightarrow> rat \<Rightarrow> rat" where
  "js_mul rd x y = rd (x * y)"

definition js_add :: "rounding \<Rightarrow> rat \<Rightarrow> rat \<Rightarrow> rat" where
  "js_add rd x y = rd (x + y)"

definition js_div :: "rounding \<Rightarrow> rat \<Rightarrow> rat \<Rightarrow> rat" where
  "js_div rd x y = rd (x / y)"

text \<open>
  The rounding of IEEE-754 binary64, to the nearest number with 53 significant bits and
  to the even one of two equally near, with gradual underflow. \<open>bitLength n\<close> is the
  number of binary digits of \<open>n\<close>, and \<open>binaryExponent x\<close> the \<open>e\<close> with
  \<open>2 ^ e \<le> \<bar>x\<bar> < 2 ^ (e + 1)\<close>. Overflow to an infinity is not modelled.
\<close>

function bitLength :: "int \<Rightarrow> int" where
  "bitLength n = (if n \<le> 0 then 0 else 1 + bitLength (n div 2))"
  by pat_completeness auto
termination
  by (relation "measure nat") auto

declare bitLength.simps [simp del]

definition binaryExponent :: "rat \<Rightarrow> int" where
  "binaryExponent x =
     (let (p, q) = quotient_of \<bar>x\<bar>;
          b = bitLength p - bitLength q
      in if 2 powi b \<le> \<bar>x\<bar> then b else b - 1)"

definition roundHalfEven :: "rat \<Rightarrow> int" where
  "roundHalfEven q =
     (let n = \<lfloor>q\<rfloor>; f = q - of_int n
      in if f < 1 / 2 then n else if 1 / 2 < f then n + 1 else if even n then n else n + 1)"

definition double :: rounding where
  "double x =
     (if x = 0 then 0
      else let ulp = 2 powi (max (binaryExponent x) (- 1022) - 52)
           in of_int (roundHalfEven (x / ulp)) * ulp)"

text \<open>
  \<open>x.toFixed(2)\<close> is the decimal with two fraction digits nearest to the exact value of
  \<open>x\<close>, the larger one of two equally near; a negative \<open>x\<close> is formatted as the minus sign
  and \<open>-x\<close>. (From \<open>10 ^ 21\<close> on \<open>toFixed\<close> prints the number as it is; a double of that
  size is an integer, so the value is the same.) \<open>parseFloat\<close> rounds the decimal into
  the number format; \<open>round2\<close> is \<open>parseFloat(x.toFixed(2))\<close>.
\<close>

definition toFixed2 :: "rat \<Rightarrow> rat" where
  "toFixed2 x =
     (if x < 0 then - (of_int \<lfloor>(- x) * 100 + 1 / 2\<rfloor> / 100)
      else of_int \<lfloor>x * 100 + 1 / 2\<rfloor> / 100)"

definition round2 :: "rounding \<Rightarrow> rat \<Rightarrow> rat" where
  "round2 rd x = rd (toFixed2 x)"

text \<open>The numbers with at most two fraction digits.\<close>

definition twoDecimals :: "rat \<Rightarrow> bool" where
  "twoDecimals x = (of_int \<lfloor>x * 100\<rfloor> = x * 100)"

section \<open>Shipment data\<close>

text \<open>
  A package with the properties the service reads: \<open>ptype\<close> is \<open>pkg.type\<close>, and \<open>dlength\<close>,
  \<open>dwidth\<close> and \<open>dheight\<close> are \<open>dimensions.length\<close>, \<open>dimensions.width\<close> and
  \<open>dimensions.height\<close>. The shipment type and the insurance type are the strings the
  data model admits.
\<close>

record dimensions =
  dlength :: rat
  dwidth :: rat
  dheight :: rat

datatype package_type = Parcel | Documents | Pallet | Container | Other

record package =
  ptype :: package_type
  weight :: rat
  dimensions :: dimensions
  isFragile :: bool
  isPerishable :: bool
  isHazardous :: bool

datatype shipment_type = International | Local

datatype insurance_type = NoInsurance | Basic | Premium

text \<open>
  The rate configuration of the service object (\<open>this.baseRates\<close>, \<open>this.vatRate\<close>,
  \<open>this.insuranceRates\<close>). \<open>insuranceRates\<close> is only read at \<open>Basic\<close> and \<open>Premium\<close>.
\<close>

record rates =
  baseRates :: "shipment_type \<Rightarrow> rat"
  vatRate :: rat
  insuranceRates :: "insurance_type \<Rightarrow> rat"

definition defaultRates :: "rounding \<Rightarrow> rates" where
  "defaultRates rd =
     \<lparr> baseRates = (\<lambda>t. case t of International \<Rightarrow> 20 | Local \<Rightarrow> 10),
       vatRate = rd (3 / 40),
       insuranceRates = (\<lambda>t. case t of Premium \<Rightarrow> rd (1 / 50) | _ \<Rightarrow> rd (1 / 100)) \<rparr>"

section \<open>Cost calculation\<close>

definition calculateVolumetricWeight :: "rounding \<Rightarrow> dimensions \<Rightarrow> rat" where
  "calculateVolumetricWeight rd d =
     js_div rd (js_mul rd (js_mul rd (dlength d) (dwidth d)) (dheight d)) 5000"

definition calculateChargeableWeight :: "rounding \<Rightarrow> package \<Rightarrow> rat" where
  "calculateChargeableWeight rd pkg =
     (let volumetricWeight = calculateVolumetricWeight rd (dimensions pkg)
      in max (weight pkg) volumetricWeight)"

definition calculateTotalChargeableWeight :: "rounding \<Rightarrow> package list \<Rightarrow> rat" where
  "calculateTotalChargeableWeight rd packages =
     foldl (\<lambda>total pkg. js_add rd total (calculateChargeableWeight rd pkg)) 0 packages"

text \<open>The body of the \<open>forEach\<close> callback of \<open>calculateBaseShippingCost\<close>.\<close>

definition specialHandling :: "rounding \<Rightarrow> rat \<Rightarrow> package \<Rightarrow> rat" where
  "specialHandling rd cost pkg =
     (let cost = (if isFragile pkg then js_mul rd cost (rd (6 / 5)) else cost);
          cost = (if isPerishable pkg then js_mul rd cost (rd (23 / 20)) else cost);
          cost = (if isHazardous pkg then js_mul rd cost (rd (13 / 10)) else cost)
      in cost)"

definition calculateBaseShippingCost ::
    "rounding \<Rightarrow> rates \<Rightarrow> shipment_type \<Rightarrow> package list \<Rightarrow> rat" where
  "calculateBaseShippingCost rd R ty packages =
     (let totalWeight = calculateTotalChargeableWeight rd packages;
          baseRate = baseRates R ty;
          cost = js_mul rd totalWeight baseRate;
          cost = (if ty = International then js_mul rd cost (3 / 2) else cost);
          cost = foldl (specialHandling rd) cost packages
      in round2 rd cost)"

text \<open>
  The surcharge factors of one package and the base cost as the specification words
  them: the running value is multiplied by each factor of each package, in list order.
\<close>

definition surchargeFactors :: "rounding \<Rightarrow> package \<Rightarrow> rat list" where
  "surchargeFactors rd pkg =
     (if isFragile pkg then [rd (6 / 5)] else []) @
     (if isPerishable pkg then [rd (23 / 20)] else []) @
     (if isHazardous pkg then [rd (13 / 10)] else [])"

definition distanceMultiplier :: "shipment_type \<Rightarrow> rat list" where
  "distanceMultiplier ty = (if ty = International then [3 / 2] else [])"

definition specBaseShippingCost ::
    "rounding \<Rightarrow> rates \<Rightarrow> shipment_type \<Rightarrow> package list \<Rightarrow> rat" where
  "specBaseShippingCost rd R ty packages =
     round2 rd
       (foldl (js_mul rd)
          (js_mul rd (calculateTotalChargeableWeight rd packages) (baseRates R ty))
          (distanceMultiplier ty @ concat (map (surchargeFactors rd) packages)))"

definition calculateInsuranceCost :: "rounding \<Rightarrow> rates \<Rightarrow> insurance_type \<Rightarrow> rat \<Rightarrow> rat" where
  "calculateInsuranceCost rd R insuranceType baseAmount =
     (if insuranceType = NoInsurance then 0
      else round2 rd (js_mul rd baseAmount (insuranceRates R insuranceType)))"

text \<open>
  The fields of \<open>shipmentData\<close> that the service reads: \<open>type\<close>, \<open>packages\<close>,
  \<open>insurance?.type\<close> (\<open>None\<close> when the insurance object or its type is missing) and
  \<open>pickup.date\<close>. A date is the number of milliseconds of local time since the local
  midnight of 1 January 1970, a Thursday.
\<close>

type_synonym date = int

record shipmentData =
  shipmentType :: shipment_type
  shipmentPackages :: "package list"
  insuranceType :: "insurance_type option"
  pickupDate :: date

record cost =
  baseAmount :: rat
  insurance :: rat
  vat :: rat
  total :: rat

definition calculateShippingCost :: "rounding \<Rightarrow> rates \<Rightarrow> shipmentData \<Rightarrow> cost" where
  "calculateShippingCost rd R shipmentData =
     (let baseAmount = calculateBaseShippingCost rd R (shipmentType shipmentData)
                         (shipmentPackages shipmentData);
          insuranceCost = calculateInsuranceCost rd R
                            (case insuranceType shipmentData of None \<Rightarrow> NoInsurance | Some t \<Rightarrow> t)
                            baseAmount;
          vat = round2 rd (js_mul rd baseAmount (vatRate R));
          total = round2 rd (js_add rd (js_add rd baseAmount insuranceCost) vat)
      in \<lparr> baseAmount = baseAmount, insurance = insuranceCost, vat = vat, total = total \<rparr>)"

section \<open>Delivery estimate\<close>

definition msPerDay :: int where
  "msPerDay = 86400000"

text \<open>\<open>getDay\<close>: 0 is Sunday, 6 is Saturday. \<open>addDays d n\<close> is \<open>d.setDate(d.getDate() + n)\<close>.\<close>

definition getDay :: "date \<Rightarrow> int" where
  "getDay d = (d div msPerDay + 4) mod 7"

definition addDays :: "date \<Rightarrow> int \<Rightarrow> date" where
  "addDays d n = d + n * msPerDay"

text \<open>The \<open>while\<close> loop of \<open>estimateDeliveryDate\<close>.\<close>

function adjustForWeekends :: "date \<Rightarrow> date" where
  "adjustForWeekends estimatedDate =
     (if getDay estimatedDate = 0 \<or> getDay estimatedDate = 6
      then adjustForWeekends (addDays estimatedDate 1)
      else estimatedDate)"
  by pat_completeness auto
termination
proof (relation "measure (\<lambda>d. if getDay d = 6 then 2 else if getDay d = 0 then 1 else 0)")
  show "wf (measure (\<lambda>d. if getDay d = 6 then 2 else if getDay d = 0 then 1 else (0::nat)))"
    by simp
next
  fix estimatedDate :: date
  assume "getDay estimatedDate = 0 \<or> getDay estimatedDate = 6"
  moreover have "getDay (addDays estimatedDate 1) = (getDay estimatedDate + 1) mod 7"
    by (simp add: getDay_def addDays_def msPerDay_def mod_simps add.commute add.left_commute)
  ultimately show "(addDays estimatedDate 1, estimatedDate)
      \<in> measure (\<lambda>d. if getDay d = 6 then 2 else if getDay d = 0 then 1 else 0)"
    by auto
qed

declare adjustForWeekends.simps [simp del]

definition hasSpecialHandling :: "package list \<Rightarrow> bool" where
  "hasSpecialHandling ps = list_ex (\<lambda>pkg. isFragile pkg \<or> isPerishable pkg \<or> isHazardous pkg) ps"

definition estimateDeliveryDate :: "shipmentData \<Rightarrow> date" where
  "estimateDeliveryDate shipmentData =
     (let pickup = pickupDate shipmentData;
          deliveryDays = (if shipmentType shipmentData = International then 5 else 2);
          deliveryDays =
            (if length (shipmentPackages shipmentData) > 1
             then deliveryDays + \<lceil>rat_of_nat (length (shipmentPackages shipmentData)) / 2\<rceil>
             else deliveryDays);
          deliveryDays =
            (if hasSpecialHandling (shipmentPackages shipmentData) then deliveryDays + 1
             else deliveryDays);
          estimatedDate = addDays pickup deliveryDays
      in adjustForWeekends estimatedDate)"

text \<open>The number of delivery days as the specification words it.\<close>

definition specDeliveryDays :: "shipmentData \<Rightarrow> int" where
  "specDeliveryDays sd =
     (case shipmentType sd of International \<Rightarrow> 5 | Local \<Rightarrow> 2)
     + (if 1 < length (shipmentPackages sd) then (int (length (shipmentPackages sd)) + 1) div 2 else 0)
     + (if \<exists>p \<in> set (shipmentPackages sd). isFragile p \<or> isPerishable p \<or> isHazardous p then 1 else 0)"

definition isWeekend :: "date \<Rightarrow> bool" where
  "isWeekend d = (getDay d = 0 \<or> getDay d = 6)"

section \<open>Errors\<close>

text \<open>
  \<open>AppError message statusCode\<close> is the error class of the repository. The
  specification's InvalidInput and InvalidState are both raised with status 400 and
  NotFound with status 404. \<open>Thrown\<close> is any other exception, raised by a collaborator.
\<close>

datatype error = AppError (message: string) (statusCode: nat) | Thrown string

definition isBadRequest :: "error + 'a \<Rightarrow> bool" where
  "isBadRequest r = (case r of Inl (AppError m c) \<Rightarrow> c = 400 | _ \<Rightarrow> False)"

section \<open>Validation\<close>

text \<open>
  \<open>validatePickupDate\<close> reads the clock twice: \<open>now\<close> and, for \<open>maxDate\<close>, a second time.
  Both readings are parameters.
\<close>

definition validatePickupDate :: "date \<Rightarrow> date \<Rightarrow> date \<Rightarrow> error + unit" where
  "validatePickupDate now now' pickup =
     (let date = pickup;
          maxDate = addDays now' 30
      in if date < now then Inl (AppError ''Pickup date cannot be in the past'' 400)
         else if date > maxDate
           then Inl (AppError ''Pickup date cannot be more than 30 days in the future'' 400)
         else if getDay date = 0 \<or> getDay date = 6
           then Inl (AppError ''Pickup is not available on weekends'' 400)
         else Inr ())"

text \<open>A natural number in a template literal is printed in decimal.\<close>

fun showNat :: "nat \<Rightarrow> string" where
  "showNat n =
     (if n < 10 then [''0123456789'' ! n]
      else showNat (n div 10) @ [''0123456789'' ! (n mod 10)])"

declare showNat.simps [simp del]

text \<open>
  The callback of the \<open>forEach\<close> of \<open>validatePackages\<close>: \<open>Some\<close> of the error it throws, or
  \<open>None\<close> when it completes.
\<close>

definition checkPackage :: "package \<Rightarrow> nat \<Rightarrow> error option" where
  "checkPackage pkg index =
     (if weight pkg \<le> 0
      then Some (AppError (''Package '' @ showNat (index + 1) @ '': Weight must be greater than 0'') 400)
      else if dlength (dimensions pkg) \<le> 0 \<or> dwidth (dimensions pkg) \<le> 0
              \<or> dheight (dimensions pkg) \<le> 0
      then Some (AppError (''Package '' @ showNat (index + 1) @ '': Invalid dimensions'') 400)
      else let maxDimension = 150
      in if dlength (dimensions pkg) > of_nat maxDimension
            \<or> dwidth (dimensions pkg) > of_nat maxDimension
            \<or> dheight (dimensions pkg) > of_nat maxDimension
      then Some (AppError (''Package '' @ showNat (index + 1) @ '': Maximum dimension allowed is ''
                  @ showNat maxDimension @ ''cm'') 400)
      else let maxWeight = (if ptype pkg = Documents then 5 else 70)
      in if weight pkg > of_nat maxWeight
      then Some (AppError (''Package '' @ showNat (index + 1) @ '': Maximum weight allowed is ''
                  @ showNat maxWeight @ ''kg'') 400)
      else None)"

text \<open>\<open>forEachPackage packages index\<close> runs the callback on the packages from \<open>index\<close> on.\<close>

fun forEachPackage :: "package list \<Rightarrow> nat \<Rightarrow> error option" where
  "forEachPackage [] index = None"
| "forEachPackage (pkg # packages) index =
     (case checkPackage pkg index of
        Some e \<Rightarrow> Some e
      | None \<Rightarrow> forEachPackage packages (index + 1))"

text \<open>The argument is \<open>None\<close> when \<open>packages\<close> is missing.\<close>

definition validatePackages :: "package list option \<Rightarrow> error + unit" where
  "validatePackages packages =
     (case packages of
        None \<Rightarrow> Inl (AppError ''At least one package is required'' 400)
      | Some ps \<Rightarrow>
          if length ps = 0 then Inl (AppError ''At least one package is required'' 400)
          else if length ps > 10 then Inl (AppError ''Maximum 10 packages allowed per shipment'' 400)
          else (case forEachPackage ps 0 of Some e \<Rightarrow> Inl e | None \<Rightarrow> Inr ()))"

text \<open>
  The packages \<open>validatePackages\<close> lets pass and, for the others, the constraint its
  message names, in the words of the specification: the weight is above 0 and at most
  the ceiling of the package type, and every dimension is above 0 and at most 150.
\<close>

definition weightCeiling :: "package \<Rightarrow> rat" where
  "weightCeiling p = (case ptype p of Documents \<Rightarrow> 5 | _ \<Rightarrow> 70)"

definition dimensionOk :: "rat \<Rightarrow> bool" where
  "dimensionOk x = (0 < x \<and> x \<le> 150)"

definition acceptable :: "package \<Rightarrow> bool" where
  "acceptable p =
     (0 < weight p \<and> weight p \<le> weightCeiling p
      \<and> dimensionOk (dlength (dimensions p))
      \<and> dimensionOk (dwidth (dimensions p))
      \<and> dimensionOk (dheight (dimensions p)))"

definition violatedConstraint :: "package \<Rightarrow> string" where
  "violatedConstraint p =
     (if weight p \<le> 0 then ''Weight must be greater than 0''
      else if \<not> (0 < dlength (dimensions p) \<and> 0 < dwidth (dimensions p)
                  \<and> 0 < dheight (dimensions p))
        then ''Invalid dimensions''
      else if \<not> (dlength (dimensions p) \<le> 150 \<and> dwidth (dimensions p) \<le> 150
                  \<and> dheight (dimensions p) \<le> 150)
        then ''Maximum dimension allowed is 150cm''
      else (case ptype p of
              Documents \<Rightarrow> ''Maximum weight allowed is 5kg''
            | _ \<Rightarrow> ''Maximum weight allowed is 70kg''))"

section \<open>Payment lifecycle\<close>

datatype payment_status = Pending | AwaitingVerification | Completed | Failed | Refunded

datatype shipment_status =
  ShipmentPending | AwaitingPickup | PickedUp | InTransit | OutForDelivery | Delivered | Cancelled

text \<open>
  \<open>paymentSchema\<close> of the shipment model: the paths of the payment sub-document, and the
  values its \<open>status\<close> may be saved with. \<open>paymentStatus\<close> is \<open>payment.status\<close>; a path that
  is not set is \<open>None\<close>. The string \<open>awaiting_verification\<close>, which the payment service
  assigns and compares with, is not in the enum of the schema.
\<close>

record payment =
  paymentStatus :: payment_status
  transactionId :: "string option"
  paidAt :: "date option"
  refundReason :: "string option"

definition paymentStatusEnum :: "payment_status list" where
  "paymentStatusEnum = [Pending, Completed, Failed, Refunded]"

record timelineEntry =
  entryStatus :: shipment_status
  location :: "string option"
  description :: string

text \<open>
  A stored shipment, with the paths of \<open>shipmentSchema\<close> that the payment operations read
  and write: \<open>sid\<close> is \<open>_id\<close>. The other paths, the \<open>_id\<close> and the \<open>timestamp\<close> that the
  document library gives a timeline entry, and the tracking number that the hook before
  \<open>save\<close> gives a shipment without one, are left out. The collection is the list of
  the stored shipments.
\<close>

record shipment =
  sid :: string
  userId :: "string option"
  status :: shipment_status
  cost :: cost
  payment :: payment
  timeline :: "timelineEntry list"

type_synonym db = "shipment list"

text \<open>
  The payment service also reads and assigns properties of \<open>shipment.payment\<close> that are
  not paths of \<open>paymentSchema\<close>. On a document object such an assignment creates a plain
  property of the object: it can be read back from the same object, it is not saved, and
  it is missing on every document that is loaded. \<open>paymentMethod\<close> and \<open>paymentNotes\<close> are
  \<open>payment.method\<close> and \<open>payment.notes\<close>; a property that is not set is \<open>None\<close>, and
  \<open>refunded\<close> is \<open>False\<close> when it is not set. \<open>paymentMethod\<close> and \<open>createdAt\<close> are read by
  \<open>getPaymentStatus\<close> and assigned nowhere.
\<close>

record properties =
  paymentMethod :: "string option"
  createdAt :: "date option"
  verifiedAt :: "date option"
  verifiedBy :: "string option"
  paymentNotes :: "string option"
  rejectionReason :: "string option"
  refunded :: bool
  refundedAt :: "date option"
  refundedBy :: "string option"
  refundAmount :: "rat option"

definition noProperties :: properties where
  "noProperties =
     \<lparr> paymentMethod = None, createdAt = None, verifiedAt = None, verifiedBy = None,
       paymentNotes = None, rejectionReason = None, refunded = False, refundedAt = None,
       refundedBy = None, refundAmount = None \<rparr>"

text \<open>
  A document object in memory: the values of its schema paths and the plain properties
  of its payment object.
\<close>

record document =
  paths :: shipment
  properties :: properties

text \<open>
  \<open>findById\<close> loads the stored shipment with the given \<open>_id\<close> as a new document object,
  which has the schema paths and no other property. The identifiers are the well-formed
  ones; for a string that is not an identifier the document library throws a cast error.
\<close>

definition hydrate :: "shipment \<Rightarrow> document" where
  "hydrate s = \<lparr> paths = s, properties = noProperties \<rparr>"

definition findById :: "db \<Rightarrow> string \<Rightarrow> document option" where
  "findById db i = map_option hydrate (find (\<lambda>s. sid s = i) db)"

text \<open>
  \<open>save\<close> validates the document against the schema and then stores the values of its
  schema paths, in place of the stored shipment with the same \<open>_id\<close> or, when there is
  none, as a new one. Of the validators of the schema only the enum of \<open>payment.status\<close> can
  fail in the payment operations: in each of their calls of \<open>save\<close> the payment status
  has either just been assigned or is \<open>completed\<close>, the shipment status and the status of
  a timeline entry are values of their enums, and the other paths are as they were
  loaded. A validation error rejects the call and stores nothing. Failures of the
  database itself are not modelled.
\<close>

definition validate :: "shipment \<Rightarrow> error option" where
  "validate s =
     (if paymentStatus (payment s) \<in> set paymentStatusEnum then None
      else Some (Thrown ''ValidationError''))"

definition save :: "db \<Rightarrow> document \<Rightarrow> error + db" where
  "save db this =
     (case validate (paths this) of
        Some e \<Rightarrow> Inl e
      | None \<Rightarrow>
          Inr (if list_ex (\<lambda>s. sid s = sid (paths this)) db
               then map (\<lambda>s. if sid s = sid (paths this) then paths this else s) db
               else db @ [paths this]))"

text \<open>
  \<open>addTimelineEntry\<close> of the shipment model: push the entry, set the status, save.
  It returns the document after the call and what \<open>save\<close> returns.
\<close>

definition addTimelineEntry ::
    "db \<Rightarrow> document \<Rightarrow> shipment_status \<Rightarrow> string option \<Rightarrow> string \<Rightarrow> document \<times> (error + db)" where
  "addTimelineEntry db this st loc descr =
     (let this = this\<lparr> paths := (paths this)\<lparr> timeline := timeline (paths this)
                    @ [\<lparr> entryStatus = st, location = loc, description = descr \<rparr>] \<rparr> \<rparr>;
          this = this\<lparr> paths := (paths this)\<lparr> status := st \<rparr> \<rparr>
      in (this, save db this))"

text \<open>\<open>!x\<close> for a string property: true when it is missing or empty.\<close>

definition falsy :: "string option \<Rightarrow> bool" where
  "falsy x = (x = None \<or> x = Some [])"

text \<open>
  The notification service and the notification model. \<open>createNotification\<close> fills the
  title and the message from the template of the type and creates the notification,
  which validates it against \<open>notificationSchema\<close>: the user id, the title and the message
  are required and the type is one of the enum. It returns the error it throws, or \<open>None\<close>.
  The type \<open>payment_refunded\<close> has no template and is not in the enum.
\<close>

record notification =
  notifyUserId :: "string option"
  notifyType :: string
  notifyTitle :: "string option"
  notifyMessage :: "string option"

definition notificationTemplates :: "(string \<times> string \<times> string) list" where
  "notificationTemplates =
     [(''payment_verification'', ''Payment Verification Required'',
         ''Your bank transfer payment is awaiting verification.''),
      (''payment_confirmed'', ''Payment Confirmed'',
         ''Your payment has been verified and confirmed.''),
      (''payment_rejected'', ''Payment Rejected'',
         ''Your payment could not be verified. Please contact support.''),
      (''shipment_status'', ''Shipment Status Update'',
         ''Your shipment status has been updated.''),
      (''draft_expiry'', ''Draft Expiring Soon'',
         ''Your shipment draft will expire in 2 days.''),
      (''pickup_reminder'', ''Pickup Reminder'',
         ''Your shipment is scheduled for pickup tomorrow.''),
      (''delivery_update'', ''Delivery Update'',
         ''There is an update about your delivery.'')]"

definition notificationTypeEnum :: "string list" where
  "notificationTypeEnum =
     [''payment_verification'', ''payment_confirmed'', ''payment_rejected'', ''shipment_status'',
      ''draft_expiry'', ''pickup_reminder'', ''delivery_update'', ''system_notification'']"

definition createNotification :: "notification \<Rightarrow> error option" where
  "createNotification data =
     (let template = map_of notificationTemplates (notifyType data);
          title = (if falsy (notifyTitle data) then map_option fst template else notifyTitle data);
          message = (if falsy (notifyMessage data) then map_option snd template
                     else notifyMessage data)
      in if notifyUserId data = None \<or> notifyType data \<notin> set notificationTypeEnum
            \<or> falsy title \<or> falsy message
         then Some (Thrown ''ValidationError'')
         else None)"

text \<open>
  What a call of the payment service leaves behind: the collection, the document object
  it worked on (\<open>None\<close> when it loaded none) and its result, the error it rejects with or
  the document it resolves to. The clock reading of \<open>new Date()\<close> is the parameter \<open>now\<close>.
\<close>

record outcome =
  collection :: db
  document :: "document option"
  result :: "error + document"

definition rejected :: "db \<Rightarrow> document \<Rightarrow> error \<Rightarrow> outcome" where
  "rejected db shipment e = \<lparr> collection = db, document = Some shipment, result = Inl e \<rparr>"

text \<open>
  The end of every operation, after its last \<open>save\<close>: the notification is created; for
  an owned shipment the owner is looked up through \<open>User\<close>, a name that the module of the
  service neither imports nor declares, so that the lookup throws a \<open>ReferenceError\<close>;
  the socket service sends nothing for a shipment without owner; the shipment is
  returned.
\<close>

definition afterSave :: "db \<Rightarrow> document \<Rightarrow> notification \<Rightarrow> outcome" where
  "afterSave db shipment data =
     (case createNotification data of
        Some e \<Rightarrow> rejected db shipment e
      | None \<Rightarrow>
          if userId (paths shipment) \<noteq> None
          then rejected db shipment (Thrown ''ReferenceError'')
          else \<lparr> collection = db, document = Some shipment, result = Inr shipment \<rparr>)"

text \<open>
  \<open>paymentDetails\<close> is the argument of \<open>initializeBankTransfer\<close>; a missing property is
  \<open>None\<close>. The object that \<open>initializeBankTransfer\<close> assigns to \<open>shipment.payment\<close> is cast to
  \<open>paymentSchema\<close>: its \<open>status\<close> is kept, and \<open>method\<close>, \<open>amount\<close>, \<open>bankDetails\<close> and
  \<open>createdAt\<close>, which are not paths of the schema, are dropped.
\<close>

record paymentDetails =
  accountName :: "string option"
  bankName :: "string option"

record paymentLiteral =
  literalStatus :: payment_status
  literalMethod :: string
  literalAmount :: rat
  literalBankDetails :: paymentDetails
  literalCreatedAt :: date

definition castPayment :: "paymentLiteral \<Rightarrow> payment" where
  "castPayment literal =
     \<lparr> paymentStatus = literalStatus literal, transactionId = None, paidAt = None,
       refundReason = None \<rparr>"

definition initializeBankTransfer :: "date \<Rightarrow> db \<Rightarrow> document \<Rightarrow> paymentDetails \<Rightarrow> outcome" where
  "initializeBankTransfer now db shipment paymentDetails =
     (if falsy (accountName paymentDetails) \<or> falsy (bankName paymentDetails)
      then rejected db shipment (AppError ''Account name and bank name are required'' 400)
      else
        let shipment = \<lparr> paths = (paths shipment)\<lparr> payment := castPayment
                \<lparr> literalStatus = AwaitingVerification,
                  literalMethod = ''bank_transfer'',
                  literalAmount = total (cost (paths shipment)),
                  literalBankDetails = \<lparr> accountName = accountName paymentDetails,
                                         bankName = bankName paymentDetails \<rparr>,
                  literalCreatedAt = now \<rparr> \<rparr>,
              properties = noProperties \<rparr>
        in case save db shipment of
             Inl e \<Rightarrow> rejected db shipment e
           | Inr db \<Rightarrow>
               afterSave db shipment
                 \<lparr> notifyUserId = userId (paths shipment), notifyType = ''payment_verification'',
                   notifyTitle = None, notifyMessage = None \<rparr>)"

record verificationDetails =
  verified :: bool
  verificationNotes :: "string option"
  verificationRejectionReason :: "string option"
  adminId :: string

definition verifyBankTransfer :: "date \<Rightarrow> db \<Rightarrow> string \<Rightarrow> verificationDetails \<Rightarrow> outcome" where
  "verifyBankTransfer now db shipmentId verificationDetails =
     (case findById db shipmentId of
        None \<Rightarrow>
          \<lparr> collection = db, document = None, result = Inl (AppError ''Shipment not found'' 404) \<rparr>
      | Some shipment \<Rightarrow>
          if paymentStatus (payment (paths shipment)) \<noteq> AwaitingVerification
          then rejected db shipment (AppError ''Payment is not awaiting verification'' 400)
          else
            let shipment = shipment\<lparr> paths := (paths shipment)\<lparr> payment := (payment (paths shipment))
                  \<lparr> paymentStatus := (if verified verificationDetails then Completed else Failed) \<rparr> \<rparr> \<rparr>;
                shipment = shipment\<lparr> properties := (properties shipment)
                  \<lparr> verifiedAt := Some now,
                    verifiedBy := Some (adminId verificationDetails),
                    paymentNotes := verificationNotes verificationDetails \<rparr> \<rparr>;
                (shipment, saved) =
                  (if verified verificationDetails
                   then addTimelineEntry db
                          (shipment\<lparr> paths := (paths shipment)\<lparr> status := AwaitingPickup \<rparr> \<rparr>)
                          AwaitingPickup None ''Payment verified, shipment ready for pickup''
                   else (shipment\<lparr> properties := (properties shipment)
                           \<lparr> rejectionReason := verificationRejectionReason verificationDetails \<rparr> \<rparr>,
                         Inr db))
            in case saved of
                 Inl e \<Rightarrow> rejected db shipment e
               | Inr db \<Rightarrow>
                   (case save db shipment of
                      Inl e \<Rightarrow> rejected db shipment e
                    | Inr db \<Rightarrow>
                        afterSave db shipment
                          \<lparr> notifyUserId = userId (paths shipment),
                            notifyType = (if verified verificationDetails then ''payment_confirmed''
                                          else ''payment_rejected''),
                            notifyTitle = None, notifyMessage = None \<rparr>))"

record refundDetails =
  reason :: string
  refundDetailsAmount :: "rat option"
  refundAdminId :: string

text \<open>\<open>amount || total\<close>: the amount when it is given and not zero.\<close>

definition amountOr :: "rat option \<Rightarrow> rat \<Rightarrow> rat" where
  "amountOr a t = (case a of None \<Rightarrow> t | Some x \<Rightarrow> if x = 0 then t else x)"

definition processRefund :: "date \<Rightarrow> db \<Rightarrow> string \<Rightarrow> refundDetails \<Rightarrow> outcome" where
  "processRefund now db shipmentId refundDetails =
     (case findById db shipmentId of
        None \<Rightarrow>
          \<lparr> collection = db, document = None, result = Inl (AppError ''Shipment not found'' 404) \<rparr>
      | Some shipment \<Rightarrow>
          if paymentStatus (payment (paths shipment)) \<noteq> Completed
          then rejected db shipment (AppError ''Payment must be completed to process refund'' 400)
          else if refunded (properties shipment)
          then rejected db shipment (AppError ''Payment has already been refunded'' 400)
          else
            let shipment = shipment\<lparr> properties := (properties shipment)
                  \<lparr> refunded := True,
                    refundedAt := Some now,
                    refundedBy := Some (refundAdminId refundDetails) \<rparr> \<rparr>;
                shipment = shipment\<lparr> paths := (paths shipment)\<lparr> payment := (payment (paths shipment))
                  \<lparr> refundReason := Some (reason refundDetails) \<rparr> \<rparr> \<rparr>;
                shipment = shipment\<lparr> properties := (properties shipment)
                  \<lparr> refundAmount := Some (amountOr (refundDetailsAmount refundDetails)
                                            (total (cost (paths shipment)))) \<rparr> \<rparr>;
                shipment = shipment\<lparr> paths := (paths shipment)\<lparr> status := Cancelled \<rparr> \<rparr>
            in case save db shipment of
                 Inl e \<Rightarrow> rejected db shipment e
               | Inr db \<Rightarrow>
                   let (shipment, saved) = addTimelineEntry db shipment Cancelled None
                         (''Shipment cancelled and refunded: '' @ reason refundDetails)
                   in case saved of
                        Inl e \<Rightarrow> rejected db shipment e
                      | Inr db \<Rightarrow>
                          afterSave db shipment
                            \<lparr> notifyUserId = userId (paths shipment),
                              notifyType = ''payment_refunded'',
                              notifyTitle = None, notifyMessage = None \<rparr>)"

text \<open>The object \<open>getPaymentStatus\<close> returns.\<close>

record paymentStatusReport =
  reportStatus :: payment_status
  reportMethod :: "string option"
  reportAmount :: rat
  reportCreatedAt :: "date option"
  reportVerifiedAt :: "date option"
  reportRefunded :: bool
  reportRefundedAt :: "date option"
  reportRefundAmount :: "rat option"
  reportRefundReason :: "string option"

definition getPaymentStatus :: "db \<Rightarrow> string \<Rightarrow> error + paymentStatusReport" where
  "getPaymentStatus db shipmentId =
     (case findById db shipmentId of
        None \<Rightarrow> Inl (AppError ''Shipment not found'' 404)
      | Some shipment \<Rightarrow>
          Inr \<lparr> reportStatus = paymentStatus (payment (paths shipment)),
                reportMethod = paymentMethod (properties shipment),
                reportAmount = total (cost (paths shipment)),
                reportCreatedAt = createdAt (properties shipment),
                reportVerifiedAt = verifiedAt (properties shipment),
                reportRefunded = refunded (properties shipment),
                reportRefundedAt = refundedAt (properties shipment),
                reportRefundAmount = refundAmount (properties shipment),
                reportRefundReason = refundReason (payment (paths shipment)) \<rparr>)"

text \<open>
  A call of the payment lifecycle with the clock reading in it, and the collection after
  a sequence of calls. \<open>initializeBankTransfer\<close> is given a document object, any one.
\<close>

datatype call =
  Initialize document paymentDetails
| Verify string verificationDetails
| Refund string refundDetails

fun perform :: "db \<Rightarrow> call \<times> date \<Rightarrow> db" where
  "perform db (Initialize shipment details, now) =
     collection (initializeBankTransfer now db shipment details)"
| "perform db (Verify shipmentId details, now) =
     collection (verifyBankTransfer now db shipmentId details)"
| "perform db (Refund shipmentId details, now) =
     collection (processRefund now db shipmentId details)"

definition performAll :: "db \<Rightarrow> (call \<times> date) list \<Rightarrow> db" where
  "performAll db calls = foldl perform db calls"

section \<open>Example inputs\<close>

text \<open>Two small parcels: half a kilogram, perishable; one kilogram, hazardous.\<close>

definition perishableParcel :: package where
  "perishableParcel =
     \<lparr> ptype = Parcel, weight = 1 / 2,
       dimensions = \<lparr> dlength = 10, dwidth = 10, dheight = 5 \<rparr>,
       isFragile = False, isPerishable = True, isHazardous = False \<rparr>"

definition hazardousParcel :: package where
  "hazardousParcel =
     \<lparr> ptype = Parcel, weight = 1,
       dimensions = \<lparr> dlength = 10, dwidth = 10, dheight = 5 \<rparr>,
       isFragile = False, isPerishable = False, isHazardous = True \<rparr>"

text \<open>The example of the specification, with basic insurance.\<close>

definition insuredShipment :: shipmentData where
  "insuredShipment =
     \<lparr> shipmentType = International,
       shipmentPackages =
         [\<lparr> ptype = Parcel, weight = 10,
            dimensions = \<lparr> dlength = 50, dwidth = 40, dheight = 30 \<rparr>,
            isFragile = False, isPerishable = False, isHazardous = False \<rparr>],
       insuranceType = Some Basic,
       pickupDate = 0 \<rparr>"

definition exampleShipment :: shipmentData where
  "exampleShipment =
     \<lparr> shipmentType = Local,
       shipmentPackages =
         [\<lparr> ptype = Parcel, weight = 10,
            dimensions = \<lparr> dlength = 50, dwidth = 40, dheight = 30 \<rparr>,
            isFragile = False, isPerishable = False, isHazardous = False \<rparr>],
       insuranceType = None,
       pickupDate = 0 \<rparr>"

definition tinyPackage :: package where
  "tinyPackage =
     \<lparr> ptype = Parcel, weight = 1,
       dimensions = \<lparr> dlength = 1 / 2, dwidth = 10, dheight = 10 \<rparr>,
       isFragile = False, isPerishable = False, isHazardous = False \<rparr>"

definition heavyDocuments :: package where
  "heavyDocuments =
     \<lparr> ptype = Documents, weight = 6,
       dimensions = \<lparr> dlength = 30, dwidth = 20, dheight = 200 \<rparr>,
       isFragile = False, isPerishable = False, isHazardous = False \<rparr>"

text \<open>A local parcel of four and a half kilograms, with basic insurance.\<close>

definition basicShipment :: shipmentData where
  "basicShipment =
     \<lparr> shipmentType = Local,
       shipmentPackages =
         [\<lparr> ptype = Parcel, weight = 9 / 2,
            dimensions = \<lparr> dlength = 10, dwidth = 10, dheight = 5 \<rparr>,
            isFragile = False, isPerishable = False, isHazardous = False \<rparr>],
       insuranceType = Some Basic,
       pickupDate = 0 \<rparr>"

text \<open>
  A stored shipment \<open>''s1''\<close> with the given owner and payment status, and the arguments
  of the calls made on it.
\<close>

definition examplePayment :: "payment_status \<Rightarrow> payment" where
  "examplePayment st =
     \<lparr> paymentStatus = st, transactionId = None, paidAt = None, refundReason = None \<rparr>"

definition exampleStored :: "string option \<Rightarrow> payment_status \<Rightarrow> shipment" where
  "exampleStored owner st =
     \<lparr> sid = ''s1'', userId = owner, status = ShipmentPending,
       cost = \<lparr> baseAmount = 90, insurance = 1, vat = 9, total = 100 \<rparr>,
       payment = examplePayment st, timeline = [] \<rparr>"


definition exampleApproval :: verificationDetails where
  "exampleApproval =
     \<lparr> verified = True, verificationNotes = Some ''seen'',
       verificationRejectionReason = None, adminId = ''admin'' \<rparr>"

definition exampleRejection :: verificationDetails where
  "exampleRejection =
     \<lparr> verified = False, verificationNotes = None,
       verificationRejectionReason = Some ''no transfer'', adminId = ''admin'' \<rparr>"

definition exampleRefund :: "string \<Rightarrow> rat option \<Rightarrow> refundDetails" where
  "exampleRefund r a = \<lparr> reason = r, refundDetailsAmount = a, refundAdminId = ''admin'' \<rparr>"

section \<open>Properties of the cost calculation\<close>

lemma specialHandling_factors:
  "specialHandling rd c pkg = foldl (js_mul rd) c (surchargeFactors rd pkg)"
  by (simp add: specialHandling_def surchargeFactors_def)

lemma foldl_specialHandling:
  "foldl (specialHandling rd) c ps =
     foldl (js_mul rd) c (concat (map (surchargeFactors rd) ps))"
  by (induction ps arbitrary: c) (simp_all add: specialHandling_factors)

lemma surcharge_order_double:
  "calculateBaseShippingCost double (defaultRates double) Local
       [perishableParcel, hazardousParcel] = double (2243 / 100)
   \<and> calculateBaseShippingCost double (defaultRates double) Local
       [hazardousParcel, perishableParcel] = double (2242 / 100)"
  by code_simp

lemma double_cents: "double (2243 / 100) \<noteq> double (2242 / 100)"
  by code_simp

text \<open>
  C1. For every shipment type and every list of packages (in particular every non-empty
  one), \<open>calculateBaseShippingCost\<close> returns \<open>round2 w\<close>, where \<open>w\<close> is the total
  chargeable weight times the base rate of the type, multiplied once by 1.5 for an
  international shipment and then, package by package in list order, by 1.2 for a
  fragile, 1.15 for a perishable and 1.3 for a hazardous package, each factor applied
  to the whole running value. This holds for every rounding function, so it holds for
  the floating-point arithmetic of the source. There the order of the packages is part
  of the result: at the default rates a local shipment of a perishable parcel of half a
  kilogram and a hazardous parcel of one kilogram costs 22.43 in this order and 22.42
  in the other.
\<close>

theorem calculateBaseShippingCost_spec:
  "calculateBaseShippingCost rd R ty ps = specBaseShippingCost rd R ty ps
   \<and> calculateBaseShippingCost double (defaultRates double) Local
       [perishableParcel, hazardousParcel] = double (2243 / 100)
   \<and> calculateBaseShippingCost double (defaultRates double) Local
       [hazardousParcel, perishableParcel] = double (2242 / 100)
   \<and> double (2243 / 100) \<noteq> double (2242 / 100)"
  using surcharge_order_double double_cents
  by (simp add: calculateBaseShippingCost_def specBaseShippingCost_def
      distanceMultiplier_def foldl_specialHandling)

text \<open>
  The example of the specification: one package of 10 kg and 50 x 40 x 30 cm sent
  abroad at the default rates costs 360.
\<close>

lemma calculateBaseShippingCost_example:
  "calculateBaseShippingCost id (defaultRates id) International
     [\<lparr> ptype = Parcel, weight = 10,
        dimensions = \<lparr> dlength = 50, dwidth = 40, dheight = 30 \<rparr>,
        isFragile = False, isPerishable = False, isHazardous = False \<rparr>] = 360"
  by code_simp

subsection \<open>Rounding to two decimals\<close>

lemma floor_int_half: "\<lfloor>(of_int k :: rat) + 1 / 2\<rfloor> = k"
  by linarith

lemma toFixed2_fixed:
  assumes "x * 100 \<in> \<int>"
  shows "toFixed2 x = x"
proof -
  from assms obtain k :: int where k: "x * 100 = of_int k"
    by (auto elim: Ints_cases)
  have x: "x = of_int k / 100" using k by simp
  show ?thesis
  proof (cases "x < 0")
    case True
    have "(- x) * 100 = of_int (- k)" using k by simp
    then have "\<lfloor>(- x) * 100 + 1 / 2\<rfloor> = - k"
      using floor_int_half[of "- k"] by simp
    then show ?thesis using True x by (simp add: toFixed2_def)
  next
    case False
    have "\<lfloor>x * 100 + 1 / 2\<rfloor> = k"
      using floor_int_half[of k] k by simp
    then show ?thesis using False x by (simp add: toFixed2_def)
  qed
qed

lemma toFixed2_decimal: "toFixed2 x * 100 \<in> \<int>"
  by (simp add: toFixed2_def)

lemma calculateInsuranceCost_decimal: "calculateInsuranceCost id R t b * 100 \<in> \<int>"
  by (simp add: calculateInsuranceCost_def round2_def toFixed2_decimal)

lemma calculateBaseShippingCost_decimal: "calculateBaseShippingCost id R ty ps * 100 \<in> \<int>"
  by (simp add: calculateBaseShippingCost_def round2_def toFixed2_decimal Let_def)

subsection \<open>Rounding to doubles\<close>

lemma bitLength_pos:
  "0 < n \<Longrightarrow> 1 \<le> bitLength n \<and> 2 ^ nat (bitLength n - 1) \<le> n \<and> n < 2 ^ nat (bitLength n)"
proof (induction n rule: bitLength.induct)
  case (1 n)
  show ?case
  proof (cases "n = 1")
    case True
    have "bitLength (1 div 2) = 0" by (subst bitLength.simps) simp
    then have "bitLength 1 = 1" by (subst bitLength.simps) simp
    with True show ?thesis by simp
  next
    case False
    with "1.prems" have half: "0 < n div 2" by simp
    from "1.IH"[OF _ half] "1.prems"
    have ih: "1 \<le> bitLength (n div 2)"
      "2 ^ nat (bitLength (n div 2) - 1) \<le> n div 2"
      "n div 2 < 2 ^ nat (bitLength (n div 2))"
      by simp_all
    have bl: "bitLength n = 1 + bitLength (n div 2)"
      using "1.prems" by (subst bitLength.simps) simp
    have e: "nat (bitLength n - 1) = Suc (nat (bitLength (n div 2) - 1))"
      "nat (bitLength n) = Suc (nat (bitLength (n div 2)))"
      using ih(1) bl by simp_all
    have "2 * 2 ^ nat (bitLength (n div 2) - 1) \<le> n"
      using ih(2) by linarith
    moreover have "n < 2 * 2 ^ nat (bitLength (n div 2))"
      using ih(3) by linarith
    ultimately show ?thesis using ih(1) bl e by simp
  qed
qed

lemma roundHalfEven_error: "\<bar>of_int (roundHalfEven q) - q\<bar> \<le> 1 / 2"
proof -
  define n where "n = \<lfloor>q\<rfloor>"
  define f where "f = q - of_int n"
  have f: "0 \<le> f" "f < 1" unfolding f_def n_def by linarith+
  have q: "q = of_int n + f" by (simp add: f_def)
  have r: "roundHalfEven q =
      (if f < 1 / 2 then n else if 1 / 2 < f then n + 1 else if even n then n else n + 1)"
    by (simp add: roundHalfEven_def Let_def n_def f_def)
  consider "f < 1 / 2" | "1 / 2 < f" | "f = 1 / 2" by linarith
  then show ?thesis
  proof cases
    case 1
    with f q r show ?thesis by simp
  next
    case 2
    with f q r show ?thesis by simp
  next
    case 3
    with q r show ?thesis by auto
  qed
qed

lemma binaryExponent_lower:
  assumes "x \<noteq> 0"
  shows "2 powi binaryExponent x \<le> \<bar>x\<bar>"
proof -
  obtain p q where pq: "quotient_of \<bar>x\<bar> = (p, q)" by (cases "quotient_of \<bar>x\<bar>")
  then have q: "0 < q" by (rule quotient_of_denom_pos)
  have x: "\<bar>x\<bar> = of_int p / of_int q" using pq by (rule quotient_of_div)
  have p: "0 < p"
  proof -
    have "0 < \<bar>x\<bar>" using assms by simp
    with x q show ?thesis by (simp add: zero_less_divide_iff)
  qed
  define b where "b = bitLength p - bitLength q"
  have e: "binaryExponent x = (if 2 powi b \<le> \<bar>x\<bar> then b else b - 1)"
    by (simp add: binaryExponent_def pq b_def Let_def)
  show ?thesis
  proof (cases "2 powi b \<le> \<bar>x\<bar>")
    case True
    with e show ?thesis by simp
  next
    case False
    note lp = bitLength_pos[OF p] and lq = bitLength_pos[OF q]
    have "(2::rat) powi (b - 1) = 2 powi (bitLength p - 1) / 2 powi bitLength q"
      by (simp add: b_def power_int_diff)
    also have "\<dots> = 2 ^ nat (bitLength p - 1) / 2 ^ nat (bitLength q)"
      using lp lq by (simp add: power_int_def)
    also have "\<dots> \<le> of_int p / of_int q"
    proof (rule frac_le)
      show "(0::rat) \<le> of_int p" using p by simp
      have "2 ^ nat (bitLength p - 1) \<le> p" using lp by simp
      then have "rat_of_int (2 ^ nat (bitLength p - 1)) \<le> of_int p"
        by (simp only: of_int_le_iff)
      then show "(2::rat) ^ nat (bitLength p - 1) \<le> of_int p" by simp
      show "(0::rat) < of_int q" using q by simp
      have "q \<le> 2 ^ nat (bitLength q)" using lq by simp
      then have "rat_of_int q \<le> of_int (2 ^ nat (bitLength q))"
        by (simp only: of_int_le_iff)
      then show "rat_of_int q \<le> 2 ^ nat (bitLength q)" by simp
    qed
    finally show ?thesis using e False x by simp
  qed
qed

lemma binaryExponent_upper:
  assumes "x \<noteq> 0"
  shows "\<bar>x\<bar> < 2 powi (binaryExponent x + 1)"
proof -
  obtain p q where pq: "quotient_of \<bar>x\<bar> = (p, q)" by (cases "quotient_of \<bar>x\<bar>")
  then have q: "0 < q" by (rule quotient_of_denom_pos)
  have x: "\<bar>x\<bar> = of_int p / of_int q" using pq by (rule quotient_of_div)
  have p: "0 < p"
  proof -
    have "0 < \<bar>x\<bar>" using assms by simp
    with x q show ?thesis by (simp add: zero_less_divide_iff)
  qed
  define b where "b = bitLength p - bitLength q"
  have e: "binaryExponent x = (if 2 powi b \<le> \<bar>x\<bar> then b else b - 1)"
    by (simp add: binaryExponent_def pq b_def Let_def)
  show ?thesis
  proof (cases "2 powi b \<le> \<bar>x\<bar>")
    case False
    with e show ?thesis by simp
  next
    case True
    note lp = bitLength_pos[OF p] and lq = bitLength_pos[OF q]
    have "p < 2 ^ nat (bitLength p)" using lp by simp
    then have "rat_of_int p < of_int (2 ^ nat (bitLength p))"
      by (simp only: of_int_less_iff)
    then have pu: "rat_of_int p < 2 ^ nat (bitLength p)" by simp
    have "2 ^ nat (bitLength q - 1) \<le> q" using lq by simp
    then have "rat_of_int (2 ^ nat (bitLength q - 1)) \<le> of_int q"
      by (simp only: of_int_le_iff)
    then have ql: "(2::rat) ^ nat (bitLength q - 1) \<le> of_int q" by simp
    have "rat_of_int p / of_int q < 2 ^ nat (bitLength p) / 2 ^ nat (bitLength q - 1)"
      using pu ql p q by (intro frac_less) simp_all
    also have "\<dots> = 2 powi bitLength p / 2 powi (bitLength q - 1)"
      using lp lq by (simp add: power_int_def)
    also have "\<dots> = 2 powi (bitLength p - (bitLength q - 1))"
      by (simp only: power_int_diff[of "2::rat", simplified])
    also have "bitLength p - (bitLength q - 1) = b + 1"
      by (simp add: b_def)
    finally show ?thesis using e True x by simp
  qed
qed

lemma double_error: "\<bar>double x - x\<bar> \<le> \<bar>x\<bar> / 2 ^ 53 + 2 powi (- 1075)"
proof (cases "x = 0")
  case True
  then show ?thesis by (simp add: double_def)
next
  case False
  define e where "e = max (binaryExponent x) (- 1022)"
  define ulp :: rat where "ulp = 2 powi (e - 52)"
  have ulp: "0 < ulp" by (simp add: ulp_def)
  have d: "double x = of_int (roundHalfEven (x / ulp)) * ulp"
    using False by (simp add: double_def Let_def ulp_def e_def)
  have "double x - x = (of_int (roundHalfEven (x / ulp)) - x / ulp) * ulp"
    using ulp by (simp add: d field_simps)
  then have "\<bar>double x - x\<bar> = \<bar>of_int (roundHalfEven (x / ulp)) - x / ulp\<bar> * ulp"
    using ulp by (simp add: abs_mult)
  also have "\<dots> \<le> (1 / 2) * ulp"
    using roundHalfEven_error[of "x / ulp"] ulp by (intro mult_right_mono) simp_all
  also have "\<dots> = 2 powi (e - 53)"
  proof -
    have "(2::rat) powi (e - 52) = 2 powi (e - 53 + 1)" by simp
    also have "\<dots> = 2 powi (e - 53) * 2" by (subst power_int_add) simp_all
    finally show ?thesis by (simp add: ulp_def)
  qed
  finally have err: "\<bar>double x - x\<bar> \<le> 2 powi (e - 53)" .
  show ?thesis
  proof (cases "- 1022 \<le> binaryExponent x")
    case True
    then have "e = binaryExponent x" by (simp add: e_def)
    then have "(2::rat) powi (e - 53) = 2 powi binaryExponent x / 2 ^ 53"
      by (simp add: power_int_diff)
    also have "\<dots> \<le> \<bar>x\<bar> / 2 ^ 53"
      using binaryExponent_lower[OF False] by (simp add: divide_right_mono)
    finally have "(2::rat) powi (e - 53) \<le> \<bar>x\<bar> / 2 ^ 53" .
    moreover have "(0::rat) \<le> 2 powi (- 1075)" by simp
    ultimately show ?thesis using err by linarith
  next
    case False
    then have "e = - 1022" by (simp add: e_def)
    then have "(2::rat) powi (e - 53) = 2 powi (- 1075)" by simp
    moreover have "0 \<le> \<bar>x\<bar> / 2 ^ 53" by simp
    ultimately show ?thesis using err by linarith
  qed
qed

lemma double_amount_error:
  assumes "\<bar>x\<bar> \<le> 4000000000"
  shows "\<bar>double x - x\<bar> \<le> 1 / 1000000"
proof -
  have "(2::rat) powi (- 1075) \<le> 2 powi (- 30)"
    by (rule power_int_increasing) simp_all
  also have "\<dots> = 1 / 2 ^ 30" by (simp add: power_int_def inverse_eq_divide power_one_over)
  finally have tiny: "(2::rat) powi (- 1075) \<le> 1 / 2 ^ 30" .
  have "\<bar>x\<bar> / 2 ^ 53 \<le> (4000000000) / 2 ^ 53"
    using assms by (simp add: divide_right_mono)
  with double_error[of x] tiny show ?thesis by simp
qed

lemma double_amount_bound:
  assumes "\<bar>double x\<bar> \<le> 1000000000"
  shows "\<bar>x\<bar> \<le> 3000000000"
proof -
  have "(2::rat) powi (- 1075) \<le> 2 powi (- 30)"
    by (rule power_int_increasing) simp_all
  also have "\<dots> = 1 / 2 ^ 30" by (simp add: power_int_def inverse_eq_divide power_one_over)
  finally have tiny: "(2::rat) powi (- 1075) \<le> 1 / 2 ^ 30" .
  have "\<bar>x\<bar> / 2 ^ 53 \<le> \<bar>x\<bar> / 2" by (simp add: field_simps)
  with double_error[of x] tiny assms show ?thesis by (simp add: abs_le_iff) linarith
qed

lemma toFixed2_near:
  assumes "y * 100 \<in> \<int>" and "\<bar>s - y\<bar> < 1 / 200"
  shows "toFixed2 s = y"
proof -
  from assms(1) obtain k :: int where k: "y * 100 = of_int k"
    by (auto elim: Ints_cases)
  have y: "y = of_int k / 100" using k by simp
  have "s * 100 - of_int k = (s - y) * 100" using k by (simp add: algebra_simps)
  then have "\<bar>s * 100 - of_int k\<bar> = \<bar>(s - y) * 100\<bar>" by (simp only:)
  also have "\<dots> = \<bar>s - y\<bar> * 100" by (simp only: abs_mult abs_numeral)
  finally have eq: "\<bar>s * 100 - of_int k\<bar> = \<bar>s - y\<bar> * 100" .
  have near: "\<bar>s * 100 - of_int k\<bar> < 1 / 2"
    unfolding eq using assms(2) by simp
  show ?thesis
  proof (cases "s < 0")
    case True
    have "of_int (- k) \<le> (- s) * 100 + 1 / 2" "(- s) * 100 + 1 / 2 < of_int (- k) + 1"
      using near by linarith+
    then have "\<lfloor>(- s) * 100 + 1 / 2\<rfloor> = - k"
      by (rule floor_unique)
    then show ?thesis using True y by (simp add: toFixed2_def)
  next
    case False
    have "of_int k \<le> s * 100 + 1 / 2" "s * 100 + 1 / 2 < of_int k + 1"
      using near by linarith+
    then have "\<lfloor>s * 100 + 1 / 2\<rfloor> = k"
      by (rule floor_unique)
    then show ?thesis using False y by (simp add: toFixed2_def)
  qed
qed

lemma double_sum_of_cents:
  assumes "B * 100 \<in> \<int>" "I * 100 \<in> \<int>" "V * 100 \<in> \<int>"
    and "\<bar>double B\<bar> \<le> 1000000000" "\<bar>double I\<bar> \<le> 1000000000" "\<bar>double V\<bar> \<le> 1000000000"
  shows "toFixed2 (double (double (double B + double I) + double V)) = B + I + V"
proof -
  note bB = double_amount_bound[OF assms(4)]
    and bI = double_amount_bound[OF assms(5)]
    and bV = double_amount_bound[OF assms(6)]
  have eB: "\<bar>double B - B\<bar> \<le> 1 / 1000000" using bB by (intro double_amount_error) simp
  have eI: "\<bar>double I - I\<bar> \<le> 1 / 1000000" using bI by (intro double_amount_error) simp
  have eV: "\<bar>double V - V\<bar> \<le> 1 / 1000000" using bV by (intro double_amount_error) simp
  define y1 where "y1 = double B + double I"
  have "\<bar>y1\<bar> \<le> 4000000000" using assms(4,5) unfolding y1_def by linarith
  then have e1: "\<bar>double y1 - y1\<bar> \<le> 1 / 1000000" by (rule double_amount_error)
  define y2 where "y2 = double y1 + double V"
  have "\<bar>y2\<bar> \<le> 4000000000"
    using assms(4,5,6) e1 unfolding y2_def y1_def by linarith
  then have e2: "\<bar>double y2 - y2\<bar> \<le> 1 / 1000000" by (rule double_amount_error)
  have "\<bar>double y2 - (B + I + V)\<bar> < 1 / 200"
    using eB eI eV e1 e2 unfolding y2_def y1_def by linarith
  moreover have "(B + I + V) * 100 \<in> \<int>"
  proof -
    have "(B + I + V) * 100 = B * 100 + I * 100 + V * 100" by (simp add: algebra_simps)
    with assms(1-3) show ?thesis by simp
  qed
  ultimately show ?thesis
    unfolding y2_def y1_def by (intro toFixed2_near)
qed

lemma twoDecimals_iff: "twoDecimals x \<longleftrightarrow> x * 100 \<in> \<int>"
  unfolding twoDecimals_def
  by (metis Ints_of_int floor_of_int Ints_cases)

lemma twoDecimals_toFixed2: "twoDecimals (toFixed2 x)"
  by (simp add: twoDecimals_iff toFixed2_decimal)

lemma insuredShipment_cost:
  "calculateShippingCost double (defaultRates double) insuredShipment
     = \<lparr> baseAmount = 360, insurance = double (18 / 5), vat = 27, total = double (1953 / 5) \<rparr>"
  by code_simp

text \<open>
  C2, as amended. \<open>calculateShippingCost\<close> returns the base amount, the insurance (0
  without insurance, otherwise \<open>round2\<close> of base amount times the insurance rate), the
  VAT (\<open>round2\<close> of base amount times the VAT rate) and the total, \<open>round2\<close> of the sum
  of the three; this holds for every rounding function. Each component is rounded to two
  decimals on its own. In exact decimal arithmetic the total equals the sum of the three
  rounded components. In the arithmetic of doubles, for components of at most a billion,
  the three components are the doubles of three decimals with two fraction digits and
  the total is the double of the exact sum of these decimals; the sum of the three
  doubles themselves can differ from it in the last bits.
\<close>

theorem calculateShippingCost_spec:
  "(let c = calculateShippingCost rd R sd;
        b = calculateBaseShippingCost rd R (shipmentType sd) (shipmentPackages sd)
    in baseAmount c = b
       \<and> vat c = round2 rd (js_mul rd b (vatRate R))
       \<and> insurance c =
           (case insuranceType sd of
              None \<Rightarrow> 0
            | Some NoInsurance \<Rightarrow> 0
            | Some t \<Rightarrow> round2 rd (js_mul rd b (insuranceRates R t)))
       \<and> total c = round2 rd (js_add rd (js_add rd (baseAmount c) (insurance c)) (vat c)))
   \<and> (let c = calculateShippingCost id R sd
      in total c = baseAmount c + insurance c + vat c)
   \<and> (let c = calculateShippingCost double R sd
      in \<bar>baseAmount c\<bar> \<le> 1000000000 \<and> \<bar>insurance c\<bar> \<le> 1000000000
           \<and> \<bar>vat c\<bar> \<le> 1000000000 \<longrightarrow>
         (\<exists>B I V. twoDecimals B \<and> twoDecimals I \<and> twoDecimals V
            \<and> baseAmount c = double B \<and> insurance c = double I \<and> vat c = double V
            \<and> total c = double (B + I + V)))"
proof -
  let ?b = "calculateBaseShippingCost id R (shipmentType sd) (shipmentPackages sd)"
  let ?t = "case insuranceType sd of None \<Rightarrow> NoInsurance | Some t \<Rightarrow> t"
  let ?i = "calculateInsuranceCost id R ?t ?b"
  let ?v = "toFixed2 (?b * vatRate R)"
  have "(?b + ?i + ?v) * 100 = ?b * 100 + ?i * 100 + ?v * 100"
    by (simp add: algebra_simps)
  also have "\<dots> \<in> \<int>"
    by (intro Ints_add calculateBaseShippingCost_decimal calculateInsuranceCost_decimal
        toFixed2_decimal)
  finally have "toFixed2 (?b + ?i + ?v) = ?b + ?i + ?v"
    by (rule toFixed2_fixed)
  then have exact: "let c = calculateShippingCost id R sd
      in total c = baseAmount c + insurance c + vat c"
    by (simp add: calculateShippingCost_def Let_def round2_def js_add_def js_mul_def)
  have struct: "let c = calculateShippingCost rd R sd;
        b = calculateBaseShippingCost rd R (shipmentType sd) (shipmentPackages sd)
    in baseAmount c = b
       \<and> vat c = round2 rd (js_mul rd b (vatRate R))
       \<and> insurance c =
           (case insuranceType sd of
              None \<Rightarrow> 0
            | Some NoInsurance \<Rightarrow> 0
            | Some t \<Rightarrow> round2 rd (js_mul rd b (insuranceRates R t)))
       \<and> total c = round2 rd (js_add rd (js_add rd (baseAmount c) (insurance c)) (vat c))"
    by (simp add: calculateShippingCost_def calculateInsuranceCost_def Let_def
        split: option.split insurance_type.split)
  have floating: "let c = calculateShippingCost double R sd
      in \<bar>baseAmount c\<bar> \<le> 1000000000 \<and> \<bar>insurance c\<bar> \<le> 1000000000
           \<and> \<bar>vat c\<bar> \<le> 1000000000 \<longrightarrow>
         (\<exists>B I V. twoDecimals B \<and> twoDecimals I \<and> twoDecimals V
            \<and> baseAmount c = double B \<and> insurance c = double I \<and> vat c = double V
            \<and> total c = double (B + I + V))"
  proof -
    define c where "c = calculateShippingCost double R sd"
    obtain B where B: "twoDecimals B" "baseAmount c = double B"
      unfolding c_def
      by (auto simp: calculateShippingCost_def calculateBaseShippingCost_def Let_def round2_def
          intro: twoDecimals_toFixed2)
    obtain V where V: "twoDecimals V" "vat c = double V"
      unfolding c_def
      by (auto simp: calculateShippingCost_def Let_def round2_def intro: twoDecimals_toFixed2)
    have zero: "twoDecimals 0" "double 0 = 0"
      by (simp_all add: twoDecimals_def double_def)
    obtain I where I: "twoDecimals I" "insurance c = double I"
    proof (cases "?t = NoInsurance")
      case True
      then have "insurance c = double 0"
        unfolding c_def
        by (simp add: calculateShippingCost_def calculateInsuranceCost_def Let_def zero)
      with zero that show ?thesis by blast
    next
      case False
      then have "\<exists>x. insurance c = double (toFixed2 x)"
        unfolding c_def
        by (auto simp: calculateShippingCost_def calculateInsuranceCost_def Let_def round2_def)
      with that twoDecimals_toFixed2 show ?thesis by blast
    qed
    have t: "total c = double (toFixed2 (double (double (baseAmount c + insurance c) + vat c)))"
      unfolding c_def
      by (simp add: calculateShippingCost_def Let_def round2_def js_add_def)
    have "total c = double (B + I + V)"
      if "\<bar>baseAmount c\<bar> \<le> 1000000000" "\<bar>insurance c\<bar> \<le> 1000000000"
         "\<bar>vat c\<bar> \<le> 1000000000"
      using double_sum_of_cents[of B I V] B I V that
      by (simp add: t twoDecimals_iff)
    with B I V show ?thesis
      unfolding c_def[symmetric] Let_def by blast
  qed
  from struct exact floating show ?thesis by simp
qed

theorem calculateShippingCost_spec_witness:
  "calculateShippingCost double (defaultRates double) insuredShipment
     = \<lparr> baseAmount = 360, insurance = double (18 / 5), vat = 27, total = double (1953 / 5) \<rparr>
   \<and> (\<exists>B I V. twoDecimals B \<and> twoDecimals I \<and> twoDecimals V
         \<and> 360 = double B \<and> double (18 / 5) = double I \<and> 27 = double V
         \<and> double (1953 / 5) = double (B + I + V))"
proof -
  have small: "\<bar>360::rat\<bar> \<le> 1000000000" "\<bar>27::rat\<bar> \<le> 1000000000" by simp_all
  have "\<bar>double (18 / 5)\<bar> \<le> 1000000000" by code_simp
  with calculateShippingCost_spec[of id "defaultRates double" insuredShipment] small
  show ?thesis
    by (simp add: insuredShipment_cost Let_def)
qed

text \<open>
  C2 as stated fails in the arithmetic of doubles: for a local parcel of 4.5 kg with
  basic insurance the components are 45, 0.45 and 3.38 and the total is 48.83, while the
  sum of the three components is 48.830000000000005 as a double and is not 48.83 as an
  exact number either.
\<close>

theorem calculateShippingCost_counterexample:
  "calculateShippingCost double (defaultRates double) basicShipment
     = \<lparr> baseAmount = 45, insurance = double (9 / 20), vat = double (169 / 50),
         total = double (4883 / 100) \<rparr>
   \<and> js_add double (js_add double 45 (double (9 / 20))) (double (169 / 50))
       = 6872211556390667 / 140737488355328
   \<and> double (4883 / 100) = 3436105778195333 / 70368744177664
   \<and> js_add double (js_add double 45 (double (9 / 20))) (double (169 / 50))
       \<noteq> double (4883 / 100)
   \<and> 45 + double (9 / 20) + double (169 / 50) \<noteq> double (4883 / 100)"
  by code_simp

section \<open>Properties of the delivery estimate\<close>

lemma getDay_range: "0 \<le> getDay d \<and> getDay d < 7"
  by (simp add: getDay_def)

lemma getDay_addDays: "getDay (addDays d n) = (getDay d + n) mod 7"
  by (simp add: getDay_def addDays_def msPerDay_def mod_simps add.commute add.left_commute)

lemma addDays_addDays: "addDays (addDays d m) n = addDays d (m + n)"
  by (simp add: addDays_def algebra_simps)

lemma addDays_0: "addDays d 0 = d"
  by (simp add: addDays_def)

lemma adjustForWeekends_cases:
  "adjustForWeekends d =
     (if getDay d = 6 then addDays d 2 else if getDay d = 0 then addDays d 1 else d)"
proof -
  have weekday: "adjustForWeekends e = e" if "getDay e \<noteq> 0" "getDay e \<noteq> 6" for e
    using that by (subst adjustForWeekends.simps) simp
  have sunday: "adjustForWeekends e = addDays e 1" if "getDay e = 0" for e
  proof -
    have "getDay (addDays e 1) = 1" using that by (simp add: getDay_addDays)
    then have "adjustForWeekends (addDays e 1) = addDays e 1" by (simp add: weekday)
    then show ?thesis using that by (subst adjustForWeekends.simps) simp
  qed
  have saturday: "adjustForWeekends e = addDays e 2" if "getDay e = 6" for e
  proof -
    have "getDay (addDays e 1) = 0" using that by (simp add: getDay_addDays)
    then have "adjustForWeekends (addDays e 1) = addDays e 2"
      by (simp add: sunday addDays_addDays)
    then show ?thesis using that by (subst adjustForWeekends.simps) simp
  qed
  show ?thesis using weekday sunday saturday by auto
qed

lemma hasSpecialHandling_iff:
  "hasSpecialHandling ps = (\<exists>p \<in> set ps. isFragile p \<or> isPerishable p \<or> isHazardous p)"
  by (simp add: hasSpecialHandling_def list_ex_iff)

lemma ceiling_half: "\<lceil>rat_of_nat n / 2\<rceil> = (int n + 1) div 2"
proof -
  have "rat_of_nat n / 2 = rat_of_int (int n) / rat_of_int 2" by simp
  then have "\<lceil>rat_of_nat n / 2\<rceil> = - ((- int n) div 2)"
    unfolding ceiling_def
    by (metis floor_divide_of_int_eq minus_divide_left of_int_minus)
  then show ?thesis by linarith
qed

lemma estimateDeliveryDate_raw:
  "estimateDeliveryDate sd = adjustForWeekends (addDays (pickupDate sd) (specDeliveryDays sd))"
  by (cases "shipmentType sd")
     (simp_all add: estimateDeliveryDate_def specDeliveryDays_def Let_def
        hasSpecialHandling_iff ceiling_half)

text \<open>
  C5. \<open>estimateDeliveryDate\<close> takes 5 delivery days for an international and 2 for a
  local shipment, adds the ceiling of half the number of packages when there is more
  than one package and 1 when some package is fragile, perishable or hazardous, adds
  that many calendar days to the pickup date and then runs the weekend loop. The
  result is never a Saturday or Sunday; it is the raw date advanced by the least number
  of days (at most 2) that leaves the weekend; and a raw date on a Saturday moves by two
  days to the Monday.
\<close>

theorem estimateDeliveryDate_spec:
  "(let raw = addDays (pickupDate sd) (specDeliveryDays sd);
        r = estimateDeliveryDate sd
    in r = adjustForWeekends raw
       \<and> \<not> isWeekend r
       \<and> (\<exists>k. 0 \<le> k \<and> k \<le> 2 \<and> r = addDays raw k
              \<and> (\<forall>j. 0 \<le> j \<and> j < k \<longrightarrow> isWeekend (addDays raw j)))
       \<and> (getDay raw = 6 \<longrightarrow> r = addDays raw 2 \<and> getDay r = 1))"
proof -
  define raw where "raw = addDays (pickupDate sd) (specDeliveryDays sd)"
  have r: "estimateDeliveryDate sd = adjustForWeekends raw"
    by (simp add: raw_def estimateDeliveryDate_raw)
  have range: "0 \<le> getDay raw" "getDay raw < 7"
    using getDay_range[of raw] by simp_all
  have weekday: "\<not> isWeekend (adjustForWeekends raw)"
    using range by (auto simp: adjustForWeekends_cases isWeekend_def getDay_addDays)
  have steps: "\<exists>k. 0 \<le> k \<and> k \<le> 2 \<and> adjustForWeekends raw = addDays raw k
      \<and> (\<forall>j. 0 \<le> j \<and> j < k \<longrightarrow> isWeekend (addDays raw j))"
  proof (cases "getDay raw = 6")
    case True
    have "isWeekend (addDays raw j)" if "0 \<le> j" "j < 2" for j
    proof -
      from that have "j = 0 \<or> j = 1" by auto
      then show ?thesis using True by (auto simp: isWeekend_def getDay_addDays)
    qed
    then show ?thesis using True
      by (intro exI[of _ 2]) (simp add: adjustForWeekends_cases)
  next
    case False
    show ?thesis
    proof (cases "getDay raw = 0")
      case True
      have "isWeekend (addDays raw j)" if "0 \<le> j" "j < 1" for j
      proof -
        from that have "j = 0" by auto
        then show ?thesis using True by (simp add: isWeekend_def addDays_0)
      qed
      then show ?thesis using True
        by (intro exI[of _ 1]) (simp add: adjustForWeekends_cases)
    next
      case False
      have "adjustForWeekends raw = addDays raw 0"
        using False \<open>getDay raw \<noteq> 6\<close> by (simp add: adjustForWeekends_cases addDays_0)
      then show ?thesis
        by (intro exI[of _ 0]) auto
    qed
  qed
  have saturday: "getDay raw = 6 \<longrightarrow>
      adjustForWeekends raw = addDays raw 2 \<and> getDay (adjustForWeekends raw) = 1"
    by (simp add: adjustForWeekends_cases getDay_addDays)
  show ?thesis
    unfolding Let_def raw_def[symmetric] r
    using weekday steps saturday by blast
qed

lemma exampleShipment_raw:
  "addDays (pickupDate exampleShipment) (specDeliveryDays exampleShipment) = 2 * msPerDay"
  by (simp add: exampleShipment_def specDeliveryDays_def addDays_def)

theorem estimateDeliveryDate_spec_witness:
  "getDay (2 * msPerDay) = 6
   \<and> estimateDeliveryDate exampleShipment = 4 * msPerDay
   \<and> getDay (estimateDeliveryDate exampleShipment) = 1"
proof -
  have sat: "getDay (2 * msPerDay) = 6"
    by (simp add: getDay_def msPerDay_def)
  from estimateDeliveryDate_spec[of exampleShipment]
  have "getDay (2 * msPerDay) = 6 \<longrightarrow>
      estimateDeliveryDate exampleShipment = addDays (2 * msPerDay) 2
      \<and> getDay (estimateDeliveryDate exampleShipment) = 1"
    unfolding Let_def exampleShipment_raw by blast
  with sat have "estimateDeliveryDate exampleShipment = addDays (2 * msPerDay) 2"
    and "getDay (estimateDeliveryDate exampleShipment) = 1" by blast+
  moreover have "addDays (2 * msPerDay) 2 = 4 * msPerDay" by (simp add: addDays_def)
  ultimately show ?thesis using sat by metis
qed

section \<open>Properties of the validation\<close>

text \<open>
  C9. \<open>validatePickupDate\<close> succeeds exactly when the date is not before the clock
  reading \<open>now\<close>, not after the second clock reading plus 30 days, and not a Saturday or
  Sunday; otherwise it rejects with status 400 and the message of the first check that
  fails. The function returns no state: nothing is modified.
\<close>

theorem validatePickupDate_spec:
  "(validatePickupDate now now' d = Inr ()
      \<longleftrightarrow> \<not> d < now \<and> \<not> addDays now' 30 < d \<and> \<not> isWeekend d)
   \<and> (validatePickupDate now now' d = Inr () \<or> isBadRequest (validatePickupDate now now' d))
   \<and> (d < now \<longrightarrow> validatePickupDate now now' d
         = Inl (AppError ''Pickup date cannot be in the past'' 400))
   \<and> (\<not> d < now \<and> addDays now' 30 < d \<longrightarrow> validatePickupDate now now' d
         = Inl (AppError ''Pickup date cannot be more than 30 days in the future'' 400))
   \<and> (\<not> d < now \<and> \<not> addDays now' 30 < d \<and> isWeekend d \<longrightarrow> validatePickupDate now now' d
         = Inl (AppError ''Pickup is not available on weekends'' 400))"
  by (simp add: validatePickupDate_def isBadRequest_def isWeekend_def Let_def)

theorem validatePickupDate_spec_witness:
  "validatePickupDate (4 * msPerDay) (4 * msPerDay) (5 * msPerDay) = Inr ()
   \<and> validatePickupDate (4 * msPerDay) (4 * msPerDay) (3 * msPerDay)
       = Inl (AppError ''Pickup date cannot be in the past'' 400)
   \<and> validatePickupDate (4 * msPerDay) (4 * msPerDay) (35 * msPerDay)
       = Inl (AppError ''Pickup date cannot be more than 30 days in the future'' 400)
   \<and> validatePickupDate (4 * msPerDay) (4 * msPerDay) (9 * msPerDay)
       = Inl (AppError ''Pickup is not available on weekends'' 400)"
proof -
  have days: "getDay (5 * msPerDay) = 2" "getDay (9 * msPerDay) = 6"
    by (simp_all add: getDay_def msPerDay_def)
  have a: "validatePickupDate (4 * msPerDay) (4 * msPerDay) (5 * msPerDay) = Inr ()"
    using validatePickupDate_spec[of "4 * msPerDay" "4 * msPerDay" "5 * msPerDay"] days
    by (simp add: isWeekend_def addDays_def msPerDay_def)
  have b: "validatePickupDate (4 * msPerDay) (4 * msPerDay) (3 * msPerDay)
       = Inl (AppError ''Pickup date cannot be in the past'' 400)"
    using validatePickupDate_spec[of "4 * msPerDay" "4 * msPerDay" "3 * msPerDay"]
    by (simp add: msPerDay_def)
  have c: "validatePickupDate (4 * msPerDay) (4 * msPerDay) (35 * msPerDay)
       = Inl (AppError ''Pickup date cannot be more than 30 days in the future'' 400)"
    using validatePickupDate_spec[of "4 * msPerDay" "4 * msPerDay" "35 * msPerDay"]
    by (simp add: addDays_def msPerDay_def)
  have d: "validatePickupDate (4 * msPerDay) (4 * msPerDay) (9 * msPerDay)
       = Inl (AppError ''Pickup is not available on weekends'' 400)"
    using validatePickupDate_spec[of "4 * msPerDay" "4 * msPerDay" "9 * msPerDay"] days
    by (simp add: isWeekend_def addDays_def msPerDay_def)
  from a b c d show ?thesis by simp
qed

lemma showNat_literals: "showNat 150 = ''150''" "showNat 5 = ''5''" "showNat 70 = ''70''"
  by code_simp+

lemma checkPackage_acceptable: "checkPackage p n = None \<longleftrightarrow> acceptable p"
  by (auto simp: checkPackage_def acceptable_def dimensionOk_def weightCeiling_def Let_def
      split: package_type.splits)

lemma checkPackage_violation:
  "\<not> acceptable p \<Longrightarrow>
     checkPackage p n =
       Some (AppError (''Package '' @ showNat (n + 1) @ '': '' @ violatedConstraint p) 400)"
  by (auto simp: checkPackage_def acceptable_def dimensionOk_def weightCeiling_def Let_def
      violatedConstraint_def showNat_literals split: package_type.splits)

lemma forEachPackage_None: "forEachPackage ps n = None \<longleftrightarrow> list_all acceptable ps"
proof (induction ps arbitrary: n)
  case Nil
  show ?case by simp
next
  case (Cons p ps)
  show ?case
  proof (cases "checkPackage p n")
    case None
    then have "acceptable p" by (simp add: checkPackage_acceptable)
    with None Cons.IH[of "n + 1"] show ?thesis by simp
  next
    case (Some e)
    then have "\<not> acceptable p" using checkPackage_acceptable[of p n] by simp
    with Some show ?thesis by simp
  qed
qed

lemma forEachPackage_first:
  assumes "i < length ps" "\<not> acceptable (ps ! i)" "\<forall>j<i. acceptable (ps ! j)"
  shows "forEachPackage ps n =
     Some (AppError (''Package '' @ showNat (n + i + 1) @ '': '' @ violatedConstraint (ps ! i)) 400)"
  using assms
proof (induction ps arbitrary: n i)
  case Nil
  then show ?case by simp
next
  case (Cons p ps)
  show ?case
  proof (cases i)
    case 0
    with Cons.prems show ?thesis by (simp add: checkPackage_violation)
  next
    case (Suc k)
    with Cons.prems have "acceptable p" by auto
    then have head: "checkPackage p n = None" by (simp add: checkPackage_acceptable)
    have "k < length ps" "\<not> acceptable (ps ! k)" "\<forall>j<k. acceptable (ps ! j)"
      using Cons.prems Suc by auto
    from Cons.IH[OF this, of "n + 1"] head Suc show ?thesis by simp
  qed
qed

text \<open>
  C8, as amended. \<open>validatePackages\<close> succeeds exactly when the list is present, has
  between 1 and 10 packages, and every package has a weight above 0 and at most its
  ceiling (5 kg for documents, 70 kg otherwise) and every dimension above 0 and at most
  150 cm. Every rejection is an \<open>AppError\<close> with status 400. When the list has
  between 1 and 10 packages, the message names the 1-based index of the first offending
  package and the first constraint that package violates, and nothing else.
\<close>

theorem validatePackages_spec:
  "(validatePackages packages = Inr ()
      \<longleftrightarrow> (case packages of
             None \<Rightarrow> False
           | Some ps \<Rightarrow> ps \<noteq> [] \<and> length ps \<le> 10 \<and> list_all acceptable ps))
   \<and> (validatePackages packages = Inr () \<or> isBadRequest (validatePackages packages))
   \<and> (\<forall>ps i. packages = Some ps \<and> length ps \<le> 10 \<and> i < length ps
          \<and> \<not> acceptable (ps ! i) \<and> (\<forall>j<i. acceptable (ps ! j))
        \<longrightarrow> validatePackages packages =
              Inl (AppError (''Package '' @ showNat (i + 1) @ '': ''
                               @ violatedConstraint (ps ! i)) 400))"
proof -
  have ok: "validatePackages packages = Inr ()
      \<longleftrightarrow> (case packages of
             None \<Rightarrow> False
           | Some ps \<Rightarrow> ps \<noteq> [] \<and> length ps \<le> 10 \<and> list_all acceptable ps)"
  proof (cases packages)
    case None
    then show ?thesis by (simp add: validatePackages_def)
  next
    case (Some ps)
    have "(case forEachPackage ps 0 of Some e \<Rightarrow> Inl e | None \<Rightarrow> Inr ()) = Inr ()
        \<longleftrightarrow> list_all acceptable ps"
      using forEachPackage_None[of ps 0] by (cases "forEachPackage ps 0") simp_all
    with Some show ?thesis by (auto simp: validatePackages_def)
  qed
  have status: "validatePackages packages = Inr () \<or> isBadRequest (validatePackages packages)"
  proof (cases packages)
    case None
    then show ?thesis by (simp add: validatePackages_def isBadRequest_def)
  next
    case (Some ps)
    show ?thesis
    proof (cases "forEachPackage ps 0")
      case None
      with Some show ?thesis by (simp add: validatePackages_def isBadRequest_def)
    next
      case (Some e)
      then have "\<not> list_all acceptable ps"
        using forEachPackage_None[of ps 0] by simp
      then have "\<exists>i. i < length ps \<and> \<not> acceptable (ps ! i)"
        by (auto simp: list_all_length)
      then obtain i where "i < length ps \<and> \<not> acceptable (ps ! i)"
        and least: "\<forall>j<i. \<not> (j < length ps \<and> \<not> acceptable (ps ! j))"
        using exists_least_iff[of "\<lambda>i. i < length ps \<and> \<not> acceptable (ps ! i)"] by blast
      then have i: "i < length ps" "\<not> acceptable (ps ! i)" "\<forall>j<i. acceptable (ps ! j)"
        by auto
      from forEachPackage_first[OF i, of 0] Some \<open>packages = Some ps\<close>
      show ?thesis by (simp add: validatePackages_def isBadRequest_def)
    qed
  qed
  have first: "validatePackages packages =
      Inl (AppError (''Package '' @ showNat (i + 1) @ '': '' @ violatedConstraint (ps ! i)) 400)"
    if "packages = Some ps" "length ps \<le> 10" "i < length ps"
       "\<not> acceptable (ps ! i)" "\<forall>j<i. acceptable (ps ! j)" for ps i
    using that forEachPackage_first[of i ps 0]
    by (auto simp: validatePackages_def)
  from ok status first show ?thesis by blast
qed

theorem validatePackages_spec_witness:
  "validatePackages (Some [tinyPackage, heavyDocuments, heavyDocuments])
     = Inl (AppError ''Package 2: Maximum dimension allowed is 150cm'' 400)"
proof -
  have a: "acceptable tinyPackage" "\<not> acceptable heavyDocuments"
    by (simp_all add: acceptable_def dimensionOk_def weightCeiling_def tinyPackage_def
        heavyDocuments_def)
  have v: "violatedConstraint heavyDocuments = ''Maximum dimension allowed is 150cm''"
    by (simp add: violatedConstraint_def heavyDocuments_def)
  have s: "showNat (1 + 1) = ''2''" by code_simp
  from validatePackages_spec[of "Some [tinyPackage, heavyDocuments, heavyDocuments]"]
  have "validatePackages (Some [tinyPackage, heavyDocuments, heavyDocuments]) =
      Inl (AppError (''Package '' @ showNat (1 + 1) @ '': ''
        @ violatedConstraint ([tinyPackage, heavyDocuments, heavyDocuments] ! 1)) 400)"
    using a by (auto simp: less_Suc_eq)
  then show ?thesis using v s by simp
qed

text \<open>
  C8 as stated fails: a package with a length of half a centimetre, outside the range
  of 1 to 150 cm, is accepted.
\<close>

theorem validatePackages_counterexample:
  "dlength (dimensions tinyPackage) < 1 \<and> validatePackages (Some [tinyPackage]) = Inr ()"
  by (simp add: tinyPackage_def validatePackages_def checkPackage_def)

section \<open>Properties of the payment lifecycle\<close>

subsection \<open>The collection\<close>

lemma findById_sid: "findById db i = Some d \<Longrightarrow> sid (paths d) = i"
  by (auto simp: findById_def hydrate_def dest: find_Some_iff[THEN iffD1])

lemma findById_hydrate: "findById db i = Some d \<Longrightarrow> d = hydrate (paths d)"
  by (auto simp: findById_def hydrate_def)

lemma find_replace:
  "list_ex (\<lambda>d. sid d = sid s) db \<Longrightarrow>
     find (\<lambda>d. sid d = sid s) (map (\<lambda>d. if sid d = sid s then s else d) db) = Some s"
  by (induction db) auto

lemma find_append_new:
  "\<not> list_ex (\<lambda>d. sid d = sid s) db \<Longrightarrow> find (\<lambda>d. sid d = sid s) (db @ [s]) = Some s"
  by (induction db) auto

lemma find_replace_other:
  "i \<noteq> sid s \<Longrightarrow>
     find (\<lambda>d. sid d = i) (map (\<lambda>d. if sid d = sid s then s else d) db)
       = find (\<lambda>d. sid d = i) db"
  by (induction db) auto

lemma find_append_other:
  "i \<noteq> sid s \<Longrightarrow> find (\<lambda>d. sid d = i) (db @ [s]) = find (\<lambda>d. sid d = i) db"
  by (induction db) auto

lemma paymentStatusEnum_iff: "st \<in> set paymentStatusEnum \<longleftrightarrow> st \<noteq> AwaitingVerification"
  by (cases st) (simp_all add: paymentStatusEnum_def)

lemma save_invalid:
  "paymentStatus (payment (paths this)) = AwaitingVerification \<Longrightarrow>
     save db this = Inl (Thrown ''ValidationError'')"
  by (simp add: save_def validate_def paymentStatusEnum_iff)

lemma save_valid:
  assumes "paymentStatus (payment (paths this)) \<noteq> AwaitingVerification"
  obtains db' where "save db this = Inr db'"
    and "findById db' (sid (paths this)) = Some (hydrate (paths this))"
    and "\<And>j. j \<noteq> sid (paths this) \<Longrightarrow> findById db' j = findById db j"
proof -
  let ?db = "if list_ex (\<lambda>s. sid s = sid (paths this)) db
             then map (\<lambda>s. if sid s = sid (paths this) then paths this else s) db
             else db @ [paths this]"
  have "save db this = Inr ?db"
    using assms by (simp add: save_def validate_def paymentStatusEnum_iff)
  moreover have "findById ?db (sid (paths this)) = Some (hydrate (paths this))"
    by (simp add: findById_def find_replace find_append_new)
  moreover have "findById ?db j = findById db j" if "j \<noteq> sid (paths this)" for j
    using that by (simp add: findById_def find_replace_other find_append_other)
  ultimately show ?thesis using that by blast
qed

lemma exampleStored_found:
  "findById [exampleStored owner st] ''s1'' = Some (hydrate (exampleStored owner st))"
  by (simp add: findById_def exampleStored_def)

subsection \<open>Notifications\<close>

lemma createNotification_payment:
  "ty = ''payment_verification'' \<or> ty = ''payment_confirmed'' \<or> ty = ''payment_rejected'' \<Longrightarrow>
     createNotification \<lparr> notifyUserId = u, notifyType = ty, notifyTitle = None,
                          notifyMessage = None \<rparr>
       = (if u = None then Some (Thrown ''ValidationError'') else None)"
  by (auto simp: createNotification_def notificationTemplates_def notificationTypeEnum_def
      falsy_def Let_def)

lemma createNotification_refunded:
  "createNotification \<lparr> notifyUserId = u, notifyType = ''payment_refunded'', notifyTitle = t,
                        notifyMessage = m \<rparr>
     = Some (Thrown ''ValidationError'')"
  by (simp add: createNotification_def notificationTypeEnum_def Let_def)

lemma createNotification_Thrown:
  "createNotification n = Some e \<Longrightarrow> e = Thrown ''ValidationError''"
  by (auto simp: createNotification_def Let_def split: if_splits)

lemma afterSave_collection: "collection (afterSave db s n) = db"
  and afterSave_document: "document (afterSave db s n) = Some s"
  by (simp_all add: afterSave_def rejected_def split: option.split)

lemma afterSave_result:
  "result (afterSave db s \<lparr> notifyUserId = userId (paths s), notifyType = ty,
                             notifyTitle = None, notifyMessage = None \<rparr>)
     = Inl (Thrown (if userId (paths s) = None \<or> ty = ''payment_refunded''
                    then ''ValidationError'' else ''ReferenceError''))"
  if "ty = ''payment_verification'' \<or> ty = ''payment_confirmed'' \<or> ty = ''payment_rejected''
      \<or> ty = ''payment_refunded''"
  using that
  by (auto simp: afterSave_def rejected_def createNotification_payment
      createNotification_refunded)

lemma afterSave_no_AppError: "result (afterSave db s n) \<noteq> Inl (AppError m c)"
  by (auto simp: afterSave_def rejected_def split: option.split
      dest: createNotification_Thrown)

subsection \<open>What a call saves\<close>

lemma verifyBankTransfer_approves:
  assumes "findById db i = Some d"
    and "paymentStatus (payment (paths d)) = AwaitingVerification" and "verified vd"
  obtains db' where
    "verifyBankTransfer now db i vd =
       afterSave db'
         \<lparr> paths = (paths d)
             \<lparr> payment := (payment (paths d))\<lparr> paymentStatus := Completed \<rparr>,
               timeline := timeline (paths d)
                 @ [\<lparr> entryStatus = AwaitingPickup, location = None,
                      description = ''Payment verified, shipment ready for pickup'' \<rparr>],
               status := AwaitingPickup \<rparr>,
           properties = (properties d)
             \<lparr> verifiedAt := Some now, verifiedBy := Some (adminId vd),
               paymentNotes := verificationNotes vd \<rparr> \<rparr>
         \<lparr> notifyUserId = userId (paths d), notifyType = ''payment_confirmed'',
           notifyTitle = None, notifyMessage = None \<rparr>"
    and "findById db' i = Some (hydrate ((paths d)
             \<lparr> payment := (payment (paths d))\<lparr> paymentStatus := Completed \<rparr>,
               timeline := timeline (paths d)
                 @ [\<lparr> entryStatus = AwaitingPickup, location = None,
                      description = ''Payment verified, shipment ready for pickup'' \<rparr>],
               status := AwaitingPickup \<rparr>))"
    and "\<And>j. j \<noteq> i \<Longrightarrow> findById db' j = findById db j"
proof -
  obtain s where d: "d = \<lparr> paths = s, properties = noProperties \<rparr>"
    using findById_hydrate[OF assms(1)] unfolding hydrate_def by blast
  define D where "D = \<lparr> paths = (paths d)
             \<lparr> payment := (payment (paths d))\<lparr> paymentStatus := Completed \<rparr>,
               timeline := timeline (paths d)
                 @ [\<lparr> entryStatus = AwaitingPickup, location = None,
                      description = ''Payment verified, shipment ready for pickup'' \<rparr>],
               status := AwaitingPickup \<rparr>,
           properties = (properties d)
             \<lparr> verifiedAt := Some now, verifiedBy := Some (adminId vd),
               paymentNotes := verificationNotes vd \<rparr> \<rparr>"
  have i: "sid (paths D) = i" using findById_sid[OF assms(1)] by (simp add: D_def)
  have valid: "paymentStatus (payment (paths D)) \<noteq> AwaitingVerification" by (simp add: D_def)
  obtain db1 where db1: "save db D = Inr db1"
    and other1: "\<And>j. j \<noteq> i \<Longrightarrow> findById db1 j = findById db j"
    using save_valid[OF valid, of db] i by metis
  obtain db2 where db2: "save db1 D = Inr db2"
    and found2: "findById db2 i = Some (hydrate (paths D))"
    and other2: "\<And>j. j \<noteq> i \<Longrightarrow> findById db2 j = findById db1 j"
    using save_valid[OF valid, of db1] i by metis
  have "verifyBankTransfer now db i vd =
      (case save db D of
         Inl e \<Rightarrow> rejected db D e
       | Inr db1 \<Rightarrow>
           (case save db1 D of
              Inl e \<Rightarrow> rejected db1 D e
            | Inr db2 \<Rightarrow>
                afterSave db2 D
                  \<lparr> notifyUserId = userId (paths d), notifyType = ''payment_confirmed'',
                    notifyTitle = None, notifyMessage = None \<rparr>))"
    using assms unfolding d by (simp add: verifyBankTransfer_def addTimelineEntry_def Let_def D_def d
        split: sum.split)
  then have "verifyBankTransfer now db i vd =
      afterSave db2 D
        \<lparr> notifyUserId = userId (paths d), notifyType = ''payment_confirmed'',
          notifyTitle = None, notifyMessage = None \<rparr>"
    by (simp add: db1 db2)
  moreover have "findById db2 j = findById db j" if "j \<noteq> i" for j
    using that other1 other2 by simp
  ultimately show ?thesis
    using that found2 unfolding D_def by simp
qed

lemma verifyBankTransfer_declines:
  assumes "findById db i = Some d"
    and "paymentStatus (payment (paths d)) = AwaitingVerification" and "\<not> verified vd"
  obtains db' where
    "verifyBankTransfer now db i vd =
       afterSave db'
         \<lparr> paths = (paths d)\<lparr> payment := (payment (paths d))\<lparr> paymentStatus := Failed \<rparr> \<rparr>,
           properties = (properties d)
             \<lparr> verifiedAt := Some now, verifiedBy := Some (adminId vd),
               paymentNotes := verificationNotes vd,
               rejectionReason := verificationRejectionReason vd \<rparr> \<rparr>
         \<lparr> notifyUserId = userId (paths d), notifyType = ''payment_rejected'',
           notifyTitle = None, notifyMessage = None \<rparr>"
    and "findById db' i = Some (hydrate ((paths d)
             \<lparr> payment := (payment (paths d))\<lparr> paymentStatus := Failed \<rparr> \<rparr>))"
    and "\<And>j. j \<noteq> i \<Longrightarrow> findById db' j = findById db j"
proof -
  obtain s where d: "d = \<lparr> paths = s, properties = noProperties \<rparr>"
    using findById_hydrate[OF assms(1)] unfolding hydrate_def by blast
  define D where "D = \<lparr> paths = (paths d)
             \<lparr> payment := (payment (paths d))\<lparr> paymentStatus := Failed \<rparr> \<rparr>,
           properties = (properties d)
             \<lparr> verifiedAt := Some now, verifiedBy := Some (adminId vd),
               paymentNotes := verificationNotes vd,
               rejectionReason := verificationRejectionReason vd \<rparr> \<rparr>"
  have i: "sid (paths D) = i" using findById_sid[OF assms(1)] by (simp add: D_def)
  have valid: "paymentStatus (payment (paths D)) \<noteq> AwaitingVerification" by (simp add: D_def)
  obtain db1 where db1: "save db D = Inr db1"
    and found1: "findById db1 i = Some (hydrate (paths D))"
    and other1: "\<And>j. j \<noteq> i \<Longrightarrow> findById db1 j = findById db j"
    using save_valid[OF valid, of db] i by metis
  have "verifyBankTransfer now db i vd =
      (case save db D of
         Inl e \<Rightarrow> rejected db D e
       | Inr db1 \<Rightarrow>
           afterSave db1 D
             \<lparr> notifyUserId = userId (paths d), notifyType = ''payment_rejected'',
               notifyTitle = None, notifyMessage = None \<rparr>)"
    using assms unfolding d by (simp add: verifyBankTransfer_def Let_def D_def d split: sum.split)
  then have "verifyBankTransfer now db i vd =
      afterSave db1 D
        \<lparr> notifyUserId = userId (paths d), notifyType = ''payment_rejected'',
          notifyTitle = None, notifyMessage = None \<rparr>"
    by (simp add: db1)
  then show ?thesis
    using that found1 other1 unfolding D_def by simp
qed

lemma verifyBankTransfer_stores:
  assumes "findById db i = Some d"
    and "paymentStatus (payment (paths d)) = AwaitingVerification"
  shows "map_option (paymentStatus \<circ> payment \<circ> paths)
           (findById (collection (verifyBankTransfer now db i vd)) i)
         = Some (if verified vd then Completed else Failed)"
proof (cases "verified vd")
  case True
  from verifyBankTransfer_approves[OF assms True, of now]
  obtain db' where out: "verifyBankTransfer now db i vd =
       afterSave db'
         \<lparr> paths = (paths d)
             \<lparr> payment := (payment (paths d))\<lparr> paymentStatus := Completed \<rparr>,
               timeline := timeline (paths d)
                 @ [\<lparr> entryStatus = AwaitingPickup, location = None,
                      description = ''Payment verified, shipment ready for pickup'' \<rparr>],
               status := AwaitingPickup \<rparr>,
           properties = (properties d)
             \<lparr> verifiedAt := Some now, verifiedBy := Some (adminId vd),
               paymentNotes := verificationNotes vd \<rparr> \<rparr>
         \<lparr> notifyUserId = userId (paths d), notifyType = ''payment_confirmed'',
           notifyTitle = None, notifyMessage = None \<rparr>"
    and found: "findById db' i = Some (hydrate ((paths d)
             \<lparr> payment := (payment (paths d))\<lparr> paymentStatus := Completed \<rparr>,
               timeline := timeline (paths d)
                 @ [\<lparr> entryStatus = AwaitingPickup, location = None,
                      description = ''Payment verified, shipment ready for pickup'' \<rparr>],
               status := AwaitingPickup \<rparr>))"
    by blast
  with True show ?thesis by (simp add: afterSave_collection hydrate_def)
next
  case False
  from verifyBankTransfer_declines[OF assms False, of now]
  obtain db' where out: "verifyBankTransfer now db i vd =
       afterSave db'
         \<lparr> paths = (paths d)\<lparr> payment := (payment (paths d))\<lparr> paymentStatus := Failed \<rparr> \<rparr>,
           properties = (properties d)
             \<lparr> verifiedAt := Some now, verifiedBy := Some (adminId vd),
               paymentNotes := verificationNotes vd,
               rejectionReason := verificationRejectionReason vd \<rparr> \<rparr>
         \<lparr> notifyUserId = userId (paths d), notifyType = ''payment_rejected'',
           notifyTitle = None, notifyMessage = None \<rparr>"
    and found: "findById db' i = Some (hydrate ((paths d)
             \<lparr> payment := (payment (paths d))\<lparr> paymentStatus := Failed \<rparr> \<rparr>))"
    by blast
  with False show ?thesis by (simp add: afterSave_collection hydrate_def)
qed

lemma processRefund_passes:
  assumes "findById db i = Some d" and "paymentStatus (payment (paths d)) = Completed"
  obtains db' where
    "processRefund now db i rf =
       afterSave db'
         \<lparr> paths = (paths d)
             \<lparr> payment := (payment (paths d))\<lparr> refundReason := Some (reason rf) \<rparr>,
               timeline := timeline (paths d)
                 @ [\<lparr> entryStatus = Cancelled, location = None,
                      description = ''Shipment cancelled and refunded: '' @ reason rf \<rparr>],
               status := Cancelled \<rparr>,
           properties = (properties d)
             \<lparr> refunded := True, refundedAt := Some now,
               refundedBy := Some (refundAdminId rf),
               refundAmount := Some (amountOr (refundDetailsAmount rf)
                                       (total (cost (paths d)))) \<rparr> \<rparr>
         \<lparr> notifyUserId = userId (paths d), notifyType = ''payment_refunded'',
           notifyTitle = None, notifyMessage = None \<rparr>"
    and "findById db' i = Some (hydrate ((paths d)
             \<lparr> payment := (payment (paths d))\<lparr> refundReason := Some (reason rf) \<rparr>,
               timeline := timeline (paths d)
                 @ [\<lparr> entryStatus = Cancelled, location = None,
                      description = ''Shipment cancelled and refunded: '' @ reason rf \<rparr>],
               status := Cancelled \<rparr>))"
    and "\<And>j. j \<noteq> i \<Longrightarrow> findById db' j = findById db j"
proof -
  obtain s where d: "d = \<lparr> paths = s, properties = noProperties \<rparr>"
    using findById_hydrate[OF assms(1)] unfolding hydrate_def by blast
  define P where "P = (properties d)
             \<lparr> refunded := True, refundedAt := Some now,
               refundedBy := Some (refundAdminId rf),
               refundAmount := Some (amountOr (refundDetailsAmount rf)
                                       (total (cost (paths d)))) \<rparr>"
  define D1 where "D1 = \<lparr> paths = (paths d)
             \<lparr> payment := (payment (paths d))\<lparr> refundReason := Some (reason rf) \<rparr>,
               status := Cancelled \<rparr>, properties = P \<rparr>"
  define D2 where "D2 = \<lparr> paths = (paths d)
             \<lparr> payment := (payment (paths d))\<lparr> refundReason := Some (reason rf) \<rparr>,
               timeline := timeline (paths d)
                 @ [\<lparr> entryStatus = Cancelled, location = None,
                      description = ''Shipment cancelled and refunded: '' @ reason rf \<rparr>],
               status := Cancelled \<rparr>, properties = P \<rparr>"
  have fresh: "\<not> refunded (properties d)"
    by (simp add: d noProperties_def)
  have i: "sid (paths D1) = i" "sid (paths D2) = i"
    using findById_sid[OF assms(1)] by (simp_all add: D1_def D2_def)
  have valid: "paymentStatus (payment (paths D1)) \<noteq> AwaitingVerification"
    "paymentStatus (payment (paths D2)) \<noteq> AwaitingVerification"
    using assms(2) by (simp_all add: D1_def D2_def)
  obtain db1 where db1: "save db D1 = Inr db1"
    and other1: "\<And>j. j \<noteq> i \<Longrightarrow> findById db1 j = findById db j"
    using save_valid[OF valid(1), of db] i by metis
  obtain db2 where db2: "save db1 D2 = Inr db2"
    and found2: "findById db2 i = Some (hydrate (paths D2))"
    and other2: "\<And>j. j \<noteq> i \<Longrightarrow> findById db2 j = findById db1 j"
    using save_valid[OF valid(2), of db1] i by metis
  have "processRefund now db i rf =
      (case save db D1 of
         Inl e \<Rightarrow> rejected db D1 e
       | Inr db1 \<Rightarrow>
           (case save db1 D2 of
              Inl e \<Rightarrow> rejected db1 D2 e
            | Inr db2 \<Rightarrow>
                afterSave db2 D2
                  \<lparr> notifyUserId = userId (paths d), notifyType = ''payment_refunded'',
                    notifyTitle = None, notifyMessage = None \<rparr>))"
    using assms fresh unfolding d
    by (simp add: processRefund_def addTimelineEntry_def Let_def D1_def D2_def P_def d
        split: sum.split)
  then have "processRefund now db i rf =
      afterSave db2 D2
        \<lparr> notifyUserId = userId (paths d), notifyType = ''payment_refunded'',
          notifyTitle = None, notifyMessage = None \<rparr>"
    by (simp add: db1 db2)
  moreover have "findById db2 j = findById db j" if "j \<noteq> i" for j
    using that other1 other2 by simp
  ultimately show ?thesis
    using that found2 unfolding D2_def P_def by simp
qed

lemma processRefund_stores:
  assumes "findById db i = Some d" and "paymentStatus (payment (paths d)) = Completed"
  shows "findById (collection (processRefund now db i rf)) i
     = Some (hydrate ((paths d)
             \<lparr> payment := (payment (paths d))\<lparr> refundReason := Some (reason rf) \<rparr>,
               timeline := timeline (paths d)
                 @ [\<lparr> entryStatus = Cancelled, location = None,
                      description = ''Shipment cancelled and refunded: '' @ reason rf \<rparr>],
               status := Cancelled \<rparr>))"
proof -
  from processRefund_passes[OF assms, of now rf]
  obtain db' where out: "processRefund now db i rf =
       afterSave db'
         \<lparr> paths = (paths d)
             \<lparr> payment := (payment (paths d))\<lparr> refundReason := Some (reason rf) \<rparr>,
               timeline := timeline (paths d)
                 @ [\<lparr> entryStatus = Cancelled, location = None,
                      description = ''Shipment cancelled and refunded: '' @ reason rf \<rparr>],
               status := Cancelled \<rparr>,
           properties = (properties d)
             \<lparr> refunded := True, refundedAt := Some now,
               refundedBy := Some (refundAdminId rf),
               refundAmount := Some (amountOr (refundDetailsAmount rf)
                                       (total (cost (paths d)))) \<rparr> \<rparr>
         \<lparr> notifyUserId = userId (paths d), notifyType = ''payment_refunded'',
           notifyTitle = None, notifyMessage = None \<rparr>"
    and found: "findById db' i = Some (hydrate ((paths d)
             \<lparr> payment := (payment (paths d))\<lparr> refundReason := Some (reason rf) \<rparr>,
               timeline := timeline (paths d)
                 @ [\<lparr> entryStatus = Cancelled, location = None,
                      description = ''Shipment cancelled and refunded: '' @ reason rf \<rparr>],
               status := Cancelled \<rparr>))"
    by blast
  show ?thesis by (simp add: out afterSave_collection found)
qed


lemma initializeBankTransfer_collection:
  "collection (initializeBankTransfer now db shipment details) = db"
  by (simp add: initializeBankTransfer_def rejected_def Let_def castPayment_def save_invalid)


lemma verifyBankTransfer_other:
  assumes "j \<noteq> i"
  shows "findById (collection (verifyBankTransfer now db j vd)) i = findById db i"
proof (cases "findById db j")
  case None
  then show ?thesis by (simp add: verifyBankTransfer_def)
next
  case (Some d)
  show ?thesis
  proof (cases "paymentStatus (payment (paths d)) = AwaitingVerification")
    case False
    with Some show ?thesis by (simp add: verifyBankTransfer_def rejected_def)
  next
    case True
    show ?thesis
      using assms verifyBankTransfer_approves[OF Some True, of vd now]
        verifyBankTransfer_declines[OF Some True, of vd now]
      by (cases "verified vd") (metis afterSave_collection)+
  qed
qed

lemma processRefund_other:
  assumes "j \<noteq> i"
  shows "findById (collection (processRefund now db j rf)) i = findById db i"
proof (cases "findById db j")
  case None
  then show ?thesis by (simp add: processRefund_def)
next
  case (Some d)
  show ?thesis
  proof (cases "paymentStatus (payment (paths d)) = Completed")
    case False
    with Some show ?thesis by (simp add: processRefund_def rejected_def)
  next
    case True
    show ?thesis
      using assms processRefund_passes[OF Some True, of now rf]
      by (metis afterSave_collection)
  qed
qed


subsection \<open>Sequences of calls\<close>



lemma perform_never_refunded:
  assumes "\<And>j d. findById db j = Some d \<Longrightarrow> paymentStatus (payment (paths d)) \<noteq> Refunded"
    and "findById (perform db c) i = Some d"
  shows "paymentStatus (payment (paths d)) \<noteq> Refunded"
proof (cases "(db, c)" rule: perform.cases)
  case (1 db' shipment details now)
  then show ?thesis using assms by (simp add: initializeBankTransfer_collection)
next
  case (2 db' j vd now)
  show ?thesis
  proof (cases "j = i")
    case False
    with 2 assms verifyBankTransfer_other[of j i] show ?thesis by simp
  next
    case True
    show ?thesis
    proof (cases "findById db i")
      case None
      with 2 True assms show ?thesis by (simp add: verifyBankTransfer_def)
    next
      case (Some d0)
      show ?thesis
      proof (cases "paymentStatus (payment (paths d0)) = AwaitingVerification")
        case False
        with 2 True Some assms show ?thesis by (simp add: verifyBankTransfer_def rejected_def)
      next
        case st: True
        from verifyBankTransfer_stores[OF Some st, of now vd] 2 True assms(2)
        show ?thesis by (auto split: if_splits)
      qed
    qed
  qed
next
  case (3 db' j rf now)
  show ?thesis
  proof (cases "j = i")
    case False
    with 3 assms processRefund_other[of j i] show ?thesis by simp
  next
    case True
    show ?thesis
    proof (cases "findById db i")
      case None
      with 3 True assms show ?thesis by (simp add: processRefund_def)
    next
      case (Some d0)
      show ?thesis
      proof (cases "paymentStatus (payment (paths d0)) = Completed")
        case False
        with 3 True Some assms show ?thesis by (simp add: processRefund_def rejected_def)
      next
        case st: True
        from processRefund_stores[OF Some st, of now rf] 3 True assms(2) st
        show ?thesis by (auto simp: hydrate_def)
      qed
    qed
  qed
qed

lemma performAll_never_refunded:
  assumes "\<And>j d. findById db j = Some d \<Longrightarrow> paymentStatus (payment (paths d)) \<noteq> Refunded"
    and "findById (performAll db calls) i = Some d"
  shows "paymentStatus (payment (paths d)) \<noteq> Refunded"
  using assms unfolding performAll_def
proof (induction calls arbitrary: db)
  case Nil
  then show ?case by simp
next
  case (Cons c calls)
  show ?case
  proof (rule Cons.IH[of "perform db c"])
    show "paymentStatus (payment (paths d')) \<noteq> Refunded"
      if "findById (perform db c) j = Some d'" for j d'
      using perform_never_refunded[OF Cons.prems(1) that] .
    show "findById (foldl perform (perform db c) calls) i = Some d"
      using Cons.prems(2) by simp
  qed
qed

subsection \<open>Verification\<close>

text \<open>
  C3. The claim does not hold of the code. On a shipment that exists,
  \<open>verifyBankTransfer\<close> rejects with status 400 and changes nothing when the payment is
  not awaiting verification. Otherwise it sets the payment status, \<open>completed\<close> with
  \<open>verified\<close> and \<open>failed\<close> without, and with \<open>verified\<close> the shipment status
  \<open>awaiting_pickup\<close> and exactly one new timeline entry, of status \<open>awaiting_pickup\<close> and
  description "Payment verified, shipment ready for pickup"; without \<open>verified\<close> the
  shipment status and the timeline stay as they were. These are saved. But \<open>verifiedAt\<close>,
  \<open>verifiedBy\<close>, the notes and the rejection reason are assigned to properties that are
  not paths of \<open>paymentSchema\<close>: the document object of the call has them, and the
  shipment that is stored, and loaded afterwards, has none of them. The call then
  rejects: for a shipment without owner the notification fails validation, and for an
  owned shipment the lookup of the owner throws.
\<close>

theorem verifyBankTransfer_stored:
  assumes "findById db i = Some d"
  shows "(paymentStatus (payment (paths d)) \<noteq> AwaitingVerification \<longrightarrow>
            verifyBankTransfer now db i vd
              = \<lparr> collection = db, document = Some d,
                  result = Inl (AppError ''Payment is not awaiting verification'' 400) \<rparr>)
       \<and> (paymentStatus (payment (paths d)) = AwaitingVerification \<and> verified vd \<longrightarrow>
            (let out = verifyBankTransfer now db i vd;
                 s' = (paths d)
                   \<lparr> payment := (payment (paths d))\<lparr> paymentStatus := Completed \<rparr>,
                     status := AwaitingPickup,
                     timeline := timeline (paths d)
                       @ [\<lparr> entryStatus = AwaitingPickup, location = None,
                            description = ''Payment verified, shipment ready for pickup'' \<rparr>] \<rparr>
             in document out
                  = Some \<lparr> paths = s',
                           properties = noProperties
                             \<lparr> verifiedAt := Some now, verifiedBy := Some (adminId vd),
                               paymentNotes := verificationNotes vd \<rparr> \<rparr>
                \<and> findById (collection out) i = Some \<lparr> paths = s', properties = noProperties \<rparr>
                \<and> result out
                    = Inl (Thrown (if userId (paths d) = None then ''ValidationError''
                                   else ''ReferenceError''))))
       \<and> (paymentStatus (payment (paths d)) = AwaitingVerification \<and> \<not> verified vd \<longrightarrow>
            (let out = verifyBankTransfer now db i vd;
                 s' = (paths d)\<lparr> payment := (payment (paths d))\<lparr> paymentStatus := Failed \<rparr> \<rparr>
             in document out
                  = Some \<lparr> paths = s',
                           properties = noProperties
                             \<lparr> verifiedAt := Some now, verifiedBy := Some (adminId vd),
                               paymentNotes := verificationNotes vd,
                               rejectionReason := verificationRejectionReason vd \<rparr> \<rparr>
                \<and> findById (collection out) i = Some \<lparr> paths = s', properties = noProperties \<rparr>
                \<and> result out
                    = Inl (Thrown (if userId (paths d) = None then ''ValidationError''
                                   else ''ReferenceError''))))"
proof -
  have fresh: "properties d = noProperties"
    using findById_hydrate[OF assms] by (metis document.select_convs(2) hydrate_def)
  have rejects: "verifyBankTransfer now db i vd
      = \<lparr> collection = db, document = Some d,
          result = Inl (AppError ''Payment is not awaiting verification'' 400) \<rparr>"
    if "paymentStatus (payment (paths d)) \<noteq> AwaitingVerification"
    using that assms by (simp add: verifyBankTransfer_def rejected_def)
  have approves: ?thesis
    if st: "paymentStatus (payment (paths d)) = AwaitingVerification" and v: "verified vd"
  proof -
    from verifyBankTransfer_approves[OF assms st v, of now]
    obtain db' where out: "verifyBankTransfer now db i vd =
       afterSave db'
         \<lparr> paths = (paths d)
             \<lparr> payment := (payment (paths d))\<lparr> paymentStatus := Completed \<rparr>,
               timeline := timeline (paths d)
                 @ [\<lparr> entryStatus = AwaitingPickup, location = None,
                      description = ''Payment verified, shipment ready for pickup'' \<rparr>],
               status := AwaitingPickup \<rparr>,
           properties = (properties d)
             \<lparr> verifiedAt := Some now, verifiedBy := Some (adminId vd),
               paymentNotes := verificationNotes vd \<rparr> \<rparr>
         \<lparr> notifyUserId = userId (paths d), notifyType = ''payment_confirmed'',
           notifyTitle = None, notifyMessage = None \<rparr>"
      and found: "findById db' i = Some (hydrate ((paths d)
             \<lparr> payment := (payment (paths d))\<lparr> paymentStatus := Completed \<rparr>,
               timeline := timeline (paths d)
                 @ [\<lparr> entryStatus = AwaitingPickup, location = None,
                      description = ''Payment verified, shipment ready for pickup'' \<rparr>],
               status := AwaitingPickup \<rparr>))"
      by blast
    have "result (verifyBankTransfer now db i vd)
        = Inl (Thrown (if userId (paths d) = None then ''ValidationError''
                       else ''ReferenceError''))"
      unfolding out using afterSave_result[where ty = "''payment_confirmed''"
        and s = "\<lparr> paths = (paths d)
             \<lparr> payment := (payment (paths d))\<lparr> paymentStatus := Completed \<rparr>,
               timeline := timeline (paths d)
                 @ [\<lparr> entryStatus = AwaitingPickup, location = None,
                      description = ''Payment verified, shipment ready for pickup'' \<rparr>],
               status := AwaitingPickup \<rparr>,
           properties = (properties d)
             \<lparr> verifiedAt := Some now, verifiedBy := Some (adminId vd),
               paymentNotes := verificationNotes vd \<rparr> \<rparr>" and db = db']
      by simp
    then show ?thesis
      using st v found
      by (simp add: out afterSave_collection afterSave_document Let_def hydrate_def fresh)
  qed
  have declines: ?thesis
    if st: "paymentStatus (payment (paths d)) = AwaitingVerification" and v: "\<not> verified vd"
  proof -
    from verifyBankTransfer_declines[OF assms st v, of now]
    obtain db' where out: "verifyBankTransfer now db i vd =
       afterSave db'
         \<lparr> paths = (paths d)\<lparr> payment := (payment (paths d))\<lparr> paymentStatus := Failed \<rparr> \<rparr>,
           properties = (properties d)
             \<lparr> verifiedAt := Some now, verifiedBy := Some (adminId vd),
               paymentNotes := verificationNotes vd,
               rejectionReason := verificationRejectionReason vd \<rparr> \<rparr>
         \<lparr> notifyUserId = userId (paths d), notifyType = ''payment_rejected'',
           notifyTitle = None, notifyMessage = None \<rparr>"
      and found: "findById db' i = Some (hydrate ((paths d)
             \<lparr> payment := (payment (paths d))\<lparr> paymentStatus := Failed \<rparr> \<rparr>))"
      by blast
    have "result (verifyBankTransfer now db i vd)
        = Inl (Thrown (if userId (paths d) = None then ''ValidationError''
                       else ''ReferenceError''))"
      unfolding out using afterSave_result[where ty = "''payment_rejected''"
        and s = "\<lparr> paths = (paths d)\<lparr> payment := (payment (paths d))\<lparr> paymentStatus := Failed \<rparr> \<rparr>,
           properties = (properties d)
             \<lparr> verifiedAt := Some now, verifiedBy := Some (adminId vd),
               paymentNotes := verificationNotes vd,
               rejectionReason := verificationRejectionReason vd \<rparr> \<rparr>" and db = db']
      by simp
    then show ?thesis
      using st v found
      by (simp add: out afterSave_collection afterSave_document Let_def hydrate_def fresh)
  qed
  from rejects approves declines show ?thesis
    by (cases "paymentStatus (payment (paths d)) = AwaitingVerification"; cases "verified vd")
       simp_all
qed

text \<open>
  A shipment without owner whose payment awaits verification is approved, and an owned
  one is declined: the status is stored, the call rejects, and \<open>getPaymentStatus\<close>
  reports no \<open>verifiedAt\<close>.
\<close>

theorem verifyBankTransfer_stored_witness:
  "findById [exampleStored None AwaitingVerification] ''s1''
     = Some \<lparr> paths = exampleStored None AwaitingVerification, properties = noProperties \<rparr>
   \<and> findById
       (collection (verifyBankTransfer 2000 [exampleStored None AwaitingVerification] ''s1''
                      exampleApproval)) ''s1''
     = Some \<lparr> paths = (exampleStored None AwaitingVerification)
                \<lparr> payment := examplePayment Completed, status := AwaitingPickup,
                  timeline := [\<lparr> entryStatus = AwaitingPickup, location = None,
                     description = ''Payment verified, shipment ready for pickup'' \<rparr>] \<rparr>,
              properties = noProperties \<rparr>
   \<and> result (verifyBankTransfer 2000 [exampleStored None AwaitingVerification] ''s1''
               exampleApproval)
     = Inl (Thrown ''ValidationError'')
   \<and> findById
       (collection (verifyBankTransfer 2000 [exampleStored (Some ''u1'') AwaitingVerification]
                      ''s1'' exampleRejection)) ''s1''
     = Some \<lparr> paths = (exampleStored (Some ''u1'') AwaitingVerification)
                \<lparr> payment := examplePayment Failed \<rparr>,
              properties = noProperties \<rparr>
   \<and> result (verifyBankTransfer 2000 [exampleStored (Some ''u1'') AwaitingVerification] ''s1''
               exampleRejection)
     = Inl (Thrown ''ReferenceError'')
   \<and> getPaymentStatus
       (collection (verifyBankTransfer 2000 [exampleStored None AwaitingVerification] ''s1''
                      exampleApproval)) ''s1''
     = Inr \<lparr> reportStatus = Completed, reportMethod = None, reportAmount = 100,
             reportCreatedAt = None, reportVerifiedAt = None, reportRefunded = False,
             reportRefundedAt = None, reportRefundAmount = None, reportRefundReason = None \<rparr>"
proof -
  have st: "paymentStatus (payment (paths (hydrate (exampleStored owner AwaitingVerification))))
      = AwaitingVerification" for owner
    by (simp add: hydrate_def exampleStored_def examplePayment_def)
  note approval = verifyBankTransfer_stored[OF exampleStored_found[of None AwaitingVerification],
      where now = 2000 and vd = exampleApproval]
  note rejection =
    verifyBankTransfer_stored[OF exampleStored_found[of "Some ''u1''" AwaitingVerification],
      where now = 2000 and vd = exampleRejection]
  have a: "findById
       (collection (verifyBankTransfer 2000 [exampleStored None AwaitingVerification] ''s1''
                      exampleApproval)) ''s1''
     = Some \<lparr> paths = (exampleStored None AwaitingVerification)
                \<lparr> payment := examplePayment Completed, status := AwaitingPickup,
                  timeline := [\<lparr> entryStatus = AwaitingPickup, location = None,
                     description = ''Payment verified, shipment ready for pickup'' \<rparr>] \<rparr>,
              properties = noProperties \<rparr>"
    "result (verifyBankTransfer 2000 [exampleStored None AwaitingVerification] ''s1''
               exampleApproval)
     = Inl (Thrown ''ValidationError'')"
    using approval st[of None]
    by (simp_all add: Let_def hydrate_def exampleStored_def examplePayment_def
        exampleApproval_def)
  have r: "findById
       (collection (verifyBankTransfer 2000 [exampleStored (Some ''u1'') AwaitingVerification]
                      ''s1'' exampleRejection)) ''s1''
     = Some \<lparr> paths = (exampleStored (Some ''u1'') AwaitingVerification)
                \<lparr> payment := examplePayment Failed \<rparr>,
              properties = noProperties \<rparr>"
    "result (verifyBankTransfer 2000 [exampleStored (Some ''u1'') AwaitingVerification] ''s1''
               exampleRejection)
     = Inl (Thrown ''ReferenceError'')"
    using rejection st[of "Some ''u1''"]
    by (simp_all add: Let_def hydrate_def exampleStored_def examplePayment_def
        exampleRejection_def)
  show ?thesis
    using a r exampleStored_found[of None AwaitingVerification]
    by (simp add: getPaymentStatus_def hydrate_def noProperties_def exampleStored_def
        examplePayment_def)
qed

text \<open>
  C10. Whenever \<open>verifyBankTransfer\<close> or \<open>processRefund\<close> rejects with an error of the
  service (the shipment is not found, the payment is not awaiting verification, the
  payment is not completed, or the payment has already been refunded), the collection is
  the one it was given: every check comes before the first assignment and the first
  save. The first three rejections are returned exactly under their conditions, with the
  loaded document as it was loaded. The errors with which a call rejects after its saves
  are thrown by the notification model and by the lookup of the owner; they are not
  errors of the service.
\<close>

theorem rejections_are_atomic:
  "(findById db i = None \<longrightarrow>
      verifyBankTransfer now db i vd
        = \<lparr> collection = db, document = None,
            result = Inl (AppError ''Shipment not found'' 404) \<rparr>
      \<and> processRefund now db i rf
        = \<lparr> collection = db, document = None,
            result = Inl (AppError ''Shipment not found'' 404) \<rparr>)
   \<and> (\<forall>d. findById db i = Some d
          \<and> paymentStatus (payment (paths d)) \<noteq> AwaitingVerification \<longrightarrow>
        verifyBankTransfer now db i vd
          = \<lparr> collection = db, document = Some d,
              result = Inl (AppError ''Payment is not awaiting verification'' 400) \<rparr>)
   \<and> (\<forall>d. findById db i = Some d \<and> paymentStatus (payment (paths d)) \<noteq> Completed \<longrightarrow>
        processRefund now db i rf
          = \<lparr> collection = db, document = Some d,
              result = Inl (AppError ''Payment must be completed to process refund'' 400) \<rparr>)
   \<and> (\<forall>m c. result (verifyBankTransfer now db i vd) = Inl (AppError m c) \<longrightarrow>
        collection (verifyBankTransfer now db i vd) = db)
   \<and> (\<forall>m c. result (processRefund now db i rf) = Inl (AppError m c) \<longrightarrow>
        collection (processRefund now db i rf) = db)"
proof -
  have v: "collection (verifyBankTransfer now db i vd) = db"
    if "result (verifyBankTransfer now db i vd) = Inl (AppError m c)" for m c
  proof (cases "findById db i")
    case None
    then show ?thesis by (simp add: verifyBankTransfer_def)
  next
    case (Some d)
    show ?thesis
    proof (cases "paymentStatus (payment (paths d)) = AwaitingVerification")
      case False
      with Some show ?thesis by (simp add: verifyBankTransfer_def rejected_def)
    next
      case True
      then show ?thesis
        using that verifyBankTransfer_approves[OF Some True, of vd now]
          verifyBankTransfer_declines[OF Some True, of vd now] afterSave_no_AppError
        by (cases "verified vd") metis+
    qed
  qed
  have r: "collection (processRefund now db i rf) = db"
    if "result (processRefund now db i rf) = Inl (AppError m c)" for m c
  proof (cases "findById db i")
    case None
    then show ?thesis by (simp add: processRefund_def)
  next
    case (Some d)
    show ?thesis
    proof (cases "paymentStatus (payment (paths d)) = Completed")
      case False
      with Some show ?thesis by (simp add: processRefund_def rejected_def)
    next
      case True
      then show ?thesis
        using that processRefund_passes[OF Some True, of now rf] afterSave_no_AppError
        by metis
    qed
  qed
  show ?thesis
    using v r by (simp add: verifyBankTransfer_def processRefund_def rejected_def)
qed

theorem rejections_are_atomic_witness:
  "verifyBankTransfer 2000 [exampleStored None Completed] ''s2'' exampleApproval
     = \<lparr> collection = [exampleStored None Completed], document = None,
         result = Inl (AppError ''Shipment not found'' 404) \<rparr>
   \<and> processRefund 2000 [exampleStored None Completed] ''s2'' (exampleRefund ''damaged'' None)
     = \<lparr> collection = [exampleStored None Completed], document = None,
         result = Inl (AppError ''Shipment not found'' 404) \<rparr>
   \<and> verifyBankTransfer 2000 [exampleStored None Completed] ''s1'' exampleApproval
     = \<lparr> collection = [exampleStored None Completed],
         document = Some \<lparr> paths = exampleStored None Completed, properties = noProperties \<rparr>,
         result = Inl (AppError ''Payment is not awaiting verification'' 400) \<rparr>
   \<and> processRefund 2000 [exampleStored None Failed] ''s1'' (exampleRefund ''damaged'' None)
     = \<lparr> collection = [exampleStored None Failed],
         document = Some \<lparr> paths = exampleStored None Failed, properties = noProperties \<rparr>,
         result = Inl (AppError ''Payment must be completed to process refund'' 400) \<rparr>"
proof -
  have found: "findById [exampleStored None st] ''s1''
      = Some \<lparr> paths = exampleStored None st, properties = noProperties \<rparr>"
    and missing: "findById [exampleStored None st] ''s2'' = None" for st
    by (simp_all add: findById_def hydrate_def exampleStored_def)
  have st: "paymentStatus (payment (exampleStored None st)) = st" for st
    by (simp add: exampleStored_def examplePayment_def)
  show ?thesis
    using rejections_are_atomic[of "[exampleStored None Completed]" "''s2''" 2000
        exampleApproval "exampleRefund ''damaged'' None"]
      rejections_are_atomic[of "[exampleStored None Completed]" "''s1''" 2000
        exampleApproval "exampleRefund ''damaged'' None"]
      rejections_are_atomic[of "[exampleStored None Failed]" "''s1''" 2000
        exampleApproval "exampleRefund ''damaged'' None"]
    by (simp add: found missing st)
qed

subsection \<open>Refund\<close>




text \<open>
  C7, as amended. After \<open>processRefund\<close> has passed its checks and saved the refund (the
  stored shipment is cancelled), the status of the payment is still \<open>completed\<close>, on the
  document of the call and on the stored shipment, and \<open>getPaymentStatus\<close> reports the
  status \<open>completed\<close>. No operation of the payment service assigns the status \<open>refunded\<close>:
  when no stored payment has it, \<open>getPaymentStatus\<close> reports it for no shipment after any
  sequence of calls of \<open>initializeBankTransfer\<close>, \<open>verifyBankTransfer\<close> and \<open>processRefund\<close>.
\<close>

theorem processRefund_keeps_status:
  "(findById db i = Some d \<and> paymentStatus (payment (paths d)) = Completed \<longrightarrow>
      map_option (paymentStatus \<circ> payment \<circ> paths) (document (processRefund now db i rf))
        = Some Completed
      \<and> map_option (status \<circ> paths) (findById (collection (processRefund now db i rf)) i)
        = Some Cancelled
      \<and> map_option (paymentStatus \<circ> payment \<circ> paths)
            (findById (collection (processRefund now db i rf)) i)
        = Some Completed
      \<and> map_sum id reportStatus (getPaymentStatus (collection (processRefund now db i rf)) i)
        = Inr Completed)
   \<and> ((\<forall>j s. findById db j = Some s \<longrightarrow> paymentStatus (payment (paths s)) \<noteq> Refunded) \<longrightarrow>
        map_sum id reportStatus (getPaymentStatus (performAll db calls) k) \<noteq> Inr Refunded)"
proof -
  have refund: "map_option (paymentStatus \<circ> payment \<circ> paths) (document (processRefund now db i rf))
        = Some Completed
      \<and> map_option (status \<circ> paths) (findById (collection (processRefund now db i rf)) i)
        = Some Cancelled
      \<and> map_option (paymentStatus \<circ> payment \<circ> paths)
            (findById (collection (processRefund now db i rf)) i)
        = Some Completed
      \<and> map_sum id reportStatus (getPaymentStatus (collection (processRefund now db i rf)) i)
        = Inr Completed"
    if found: "findById db i = Some d" and st: "paymentStatus (payment (paths d)) = Completed"
  proof -
    from processRefund_passes[OF found st, of now rf]
    obtain db' where out: "processRefund now db i rf =
         afterSave db'
           \<lparr> paths = (paths d)
               \<lparr> payment := (payment (paths d))\<lparr> refundReason := Some (reason rf) \<rparr>,
                 timeline := timeline (paths d)
                   @ [\<lparr> entryStatus = Cancelled, location = None,
                        description = ''Shipment cancelled and refunded: '' @ reason rf \<rparr>],
                 status := Cancelled \<rparr>,
             properties = (properties d)
               \<lparr> refunded := True, refundedAt := Some now,
                 refundedBy := Some (refundAdminId rf),
                 refundAmount := Some (amountOr (refundDetailsAmount rf)
                                         (total (cost (paths d)))) \<rparr> \<rparr>
           \<lparr> notifyUserId = userId (paths d), notifyType = ''payment_refunded'',
             notifyTitle = None, notifyMessage = None \<rparr>"
      and stored: "findById db' i = Some (hydrate ((paths d)
               \<lparr> payment := (payment (paths d))\<lparr> refundReason := Some (reason rf) \<rparr>,
                 timeline := timeline (paths d)
                   @ [\<lparr> entryStatus = Cancelled, location = None,
                        description = ''Shipment cancelled and refunded: '' @ reason rf \<rparr>],
                 status := Cancelled \<rparr>))"
      by blast
    show ?thesis
      using stored st
      by (simp add: out afterSave_collection afterSave_document hydrate_def getPaymentStatus_def)
  qed
  have never: "map_sum id reportStatus (getPaymentStatus (performAll db calls) k) \<noteq> Inr Refunded"
    if "\<forall>j s. findById db j = Some s \<longrightarrow> paymentStatus (payment (paths s)) \<noteq> Refunded"
  proof (cases "findById (performAll db calls) k")
    case None
    then show ?thesis by (simp add: getPaymentStatus_def)
  next
    case (Some s)
    from performAll_never_refunded[OF _ Some] that
    have "paymentStatus (payment (paths s)) \<noteq> Refunded" by blast
    with Some show ?thesis by (simp add: getPaymentStatus_def)
  qed
  from refund never show ?thesis by blast
qed

theorem processRefund_keeps_status_witness:
  "map_option (paymentStatus \<circ> payment \<circ> paths)
     (findById (collection (processRefund 3000 [exampleStored None Completed] ''s1''
                              (exampleRefund ''damaged'' None))) ''s1'')
     = Some Completed
   \<and> map_sum id reportStatus
       (getPaymentStatus (collection (processRefund 3000 [exampleStored None Completed] ''s1''
                                        (exampleRefund ''damaged'' None))) ''s1'')
     = Inr Completed
   \<and> map_sum id reportStatus
       (getPaymentStatus
          (performAll [exampleStored None AwaitingVerification]
             [(Verify ''s1'' exampleApproval, 2000),
              (Refund ''s1'' (exampleRefund ''damaged'' None), 3000),
              (Refund ''s1'' (exampleRefund ''lost'' None), 4000)]) ''s1'')
     \<noteq> Inr Refunded"
proof -
  have st: "paymentStatus (payment (paths (hydrate (exampleStored None Completed)))) = Completed"
    by (simp add: hydrate_def exampleStored_def examplePayment_def)
  have clean: "\<forall>j s. findById [exampleStored None AwaitingVerification] j = Some s
      \<longrightarrow> paymentStatus (payment (paths s)) \<noteq> Refunded"
    by (auto simp: findById_def hydrate_def exampleStored_def examplePayment_def
        split: if_splits)
  from processRefund_keeps_status[of "[exampleStored None Completed]" "''s1''"
      "hydrate (exampleStored None Completed)" 3000 "exampleRefund ''damaged'' None"]
    processRefund_keeps_status[of "[exampleStored None AwaitingVerification]" "''s1''"
      "hydrate (exampleStored None AwaitingVerification)" 3000 "exampleRefund ''damaged'' None"
      "[(Verify ''s1'' exampleApproval, 2000),
        (Refund ''s1'' (exampleRefund ''damaged'' None), 3000),
        (Refund ''s1'' (exampleRefund ''lost'' None), 4000)]" "''s1''"]
    exampleStored_found[of None Completed] st clean
  show ?thesis by simp
qed

text \<open>
  C7 as stated fails: after a refund that is saved, the status of the payment, and the
  status \<open>getPaymentStatus\<close> reports, is \<open>completed\<close>, not \<open>refunded\<close>.
\<close>

theorem processRefund_status_counterexample:
  "map_option (status \<circ> paths)
     (findById (collection (processRefund 3000 [exampleStored None Completed] ''s1''
                              (exampleRefund ''damaged'' None))) ''s1'')
     = Some Cancelled
   \<and> map_option (paymentStatus \<circ> payment \<circ> paths)
       (document (processRefund 3000 [exampleStored None Completed] ''s1''
                    (exampleRefund ''damaged'' None)))
     = Some Completed
   \<and> map_sum id reportStatus
       (getPaymentStatus (collection (processRefund 3000 [exampleStored None Completed] ''s1''
                                        (exampleRefund ''damaged'' None))) ''s1'')
     = Inr Completed
   \<and> Completed \<noteq> Refunded"
  by (simp add: processRefund_def findById_def hydrate_def noProperties_def save_def
      validate_def paymentStatusEnum_def addTimelineEntry_def afterSave_def rejected_def
      createNotification_refunded amountOr_def getPaymentStatus_def exampleStored_def
      examplePayment_def exampleRefund_def Let_def)

subsection \<open>Terminal states\<close>



end
